theory Spec2Isabelle
  imports Main
begin

section \<open>The Go runtime and library functions the program calls\<close>

text \<open>
  kube-janitor-go is a Go program. Its decision logic calls a handful of functions of
  the Go standard library (\<open>time.ParseDuration\<close>, \<open>regexp\<close>, \<open>strconv.ParseFloat\<close>,
  \<open>time.Parse\<close>, \<open>Duration.String\<close>) and of the Kubernetes client library
  (\<open>Unstructured.GetCreationTimestamp\<close>). This section models those functions, as far
  as the program uses them, from their documented behaviour and their sources in the Go
  distribution (\<open>src/time/format.go\<close>, \<open>src/time/time.go\<close>) and in
  \<open>k8s.io/apimachinery\<close>. The program's own functions follow in the next section.

  Go strings are byte sequences; they are modelled as \<open>string\<close> (a list of 8-bit
  characters), so that \<open>@\<close> is Go's string concatenation, \<open>=\<close> is Go's \<open>==\<close> and
  \<open>length\<close> is Go's \<open>len\<close>. A character outside ASCII is written by its UTF-8 bytes:
  the micro sign U+00B5 is \<open>[CHR 0xC2, CHR 0xB5]\<close>.
\<close>

subsection \<open>\<open>time.Duration\<close>: a signed 64-bit count of nanoseconds\<close>

type_synonym Duration = int

definition maxDuration :: Duration where
  "maxDuration = 2 ^ 63 - 1"

definition minDuration :: Duration where
  "minDuration = - (2 ^ 63)"

text \<open>Two's-complement wrap-around of \<open>int64\<close> arithmetic.\<close>

definition wrap64 :: "int \<Rightarrow> int" where
  "wrap64 x = (x + 2 ^ 63) mod 2 ^ 64 - 2 ^ 63"

definition time_Nanosecond :: nat where "time_Nanosecond = 1"
definition time_Microsecond :: nat where "time_Microsecond = 1000 * time_Nanosecond"
definition time_Millisecond :: nat where "time_Millisecond = 1000 * time_Microsecond"
definition time_Second :: nat where "time_Second = 1000 * time_Millisecond"
definition time_Minute :: nat where "time_Minute = 60 * time_Second"
definition time_Hour :: nat where "time_Hour = 60 * time_Minute"

definition isDigit :: "char \<Rightarrow> bool" where
  "isDigit c = (c \<in> set ''0123456789'')"

definition digitVal :: "char \<Rightarrow> nat" where
  "digitVal c = of_char c - 48"

definition digitChar :: "nat \<Rightarrow> char" where
  "digitChar v = ''0123456789'' ! v"

text \<open>The value of a string of decimal digits.\<close>

definition natOfDigits :: "string \<Rightarrow> nat" where
  "natOfDigits ds = foldl (\<lambda>a c. a * 10 + digitVal c) 0 ds"

subsection \<open>\<open>float64\<close> arithmetic\<close>

text \<open>
  The program multiplies \<open>float64\<close> values and converts the product to \<open>int64\<close>, and
  \<open>time.ParseDuration\<close> does the same for the fraction of a number. Every
  \<open>float64\<close> that occurs is finite and not negative, so a \<open>float64\<close> is modelled as a
  pair \<open>(m, e)\<close> that stands for the number \<open>m * 2 ^ e\<close>. Each operation computes the
  exact result and rounds it to 53 significant bits, to nearest, ties to even, as IEEE 754
  prescribes for \<open>float64\<close>.

  The exponent is not bounded in the model. This differs from \<open>float64\<close> only for
  numbers of at least \<open>2 ^ 1024\<close> (infinity in Go) and for numbers below
  \<open>2 ^ - 1022\<close> (subnormal in Go). \<open>strconv_ParseFloat\<close> below reports the first as
  the range error that Go reports; a product that large is far outside \<open>int64\<close> in
  both; and a number that small, multiplied by the at most \<open>2.592e15\<close> nanoseconds of a
  month, is below one in both, and converts to the integer 0.
\<close>

type_synonym float64 = "nat \<times> int"

text \<open>The number of binary digits of \<open>n\<close>.\<close>

fun bitlen :: "nat \<Rightarrow> nat" where
  "bitlen n = (if n = 0 then 0 else Suc (bitlen (n div 2)))"

declare bitlen.simps [simp del]

text \<open>\<open>a / b\<close> rounded to the nearest integer, a tie to the even one.\<close>

definition roundHalfEven :: "nat \<Rightarrow> nat \<Rightarrow> nat" where
  "roundHalfEven a b =
     (let q = a div b; r = a mod b
      in if 2 * r < b then q
         else if 2 * r > b then q + 1
         else if even q then q else q + 1)"

text \<open>Numerator and denominator of \<open>(a / b) / 2 ^ e\<close>.\<close>

definition scaledRatio :: "nat \<Rightarrow> nat \<Rightarrow> int \<Rightarrow> nat \<times> nat" where
  "scaledRatio a b e = (if e \<ge> 0 then (a, b * 2 ^ nat e) else (a * 2 ^ nat (- e), b))"

text \<open>
  The \<open>float64\<close> nearest to the fraction \<open>a / b\<close> (\<open>b\<close> positive): with \<open>l\<close> the
  integer part of the binary logarithm of \<open>a / b\<close>, the fraction is rounded to a multiple
  of \<open>2 ^ (l - 52)\<close>.
\<close>

definition nearestFloat64 :: "nat \<Rightarrow> nat \<Rightarrow> float64" where
  "nearestFloat64 a b =
     (if a = 0 then (0, 0)
      else let k = int (bitlen a) - int (bitlen b);
               (a1, b1) = scaledRatio a b k;
               l = (if a1 \<ge> b1 then k else k - 1);
               e = l - 52;
               (a2, b2) = scaledRatio a b e
           in (roundHalfEven a2 b2, e))"

definition f64_of_nat :: "nat \<Rightarrow> float64" where
  "f64_of_nat n = nearestFloat64 n 1"

definition f64_mul :: "float64 \<Rightarrow> float64 \<Rightarrow> float64" where
  "f64_mul x y = (case nearestFloat64 (fst x * fst y) 1 of (m, e) \<Rightarrow> (m, e + snd x + snd y))"

definition f64_div :: "float64 \<Rightarrow> float64 \<Rightarrow> float64" where
  "f64_div x y = (case nearestFloat64 (fst x) (fst y) of (m, e) \<Rightarrow> (m, e + snd x - snd y))"

text \<open>The integer part of a \<open>float64\<close>.\<close>

definition f64_trunc :: "float64 \<Rightarrow> nat" where
  "f64_trunc x = (if snd x \<ge> 0 then fst x * 2 ^ nat (snd x) else fst x div 2 ^ nat (- snd x))"

text \<open>
  The conversion \<open>time.Duration(x)\<close> of a \<open>float64\<close> truncates towards zero. When the
  integer part does not fit \<open>int64\<close>, the Go specification leaves the result to the
  implementation (amd64 yields \<open>- 2 ^ 63\<close>, arm64 yields \<open>2 ^ 63 - 1\<close>); that result is
  the parameter \<open>ovf\<close> of the model.
\<close>

definition toDuration :: "Duration \<Rightarrow> float64 \<Rightarrow> Duration" where
  "toDuration ovf x = (if f64_trunc x < 2 ^ 63 then int (f64_trunc x) else ovf)"

subsection \<open>\<open>time.ParseDuration\<close>\<close>

text \<open>
  \<open>leadingInt\<close> consumes the leading digits of \<open>s\<close> and fails when the number exceeds
  \<open>2 ^ 63\<close>. The first argument is the accumulator \<open>x\<close> of Go's loop, initially 0.
\<close>

fun leadingInt :: "nat \<Rightarrow> string \<Rightarrow> (nat \<times> string) option" where
  "leadingInt x [] = Some (x, [])"
| "leadingInt x (c # cs) =
     (if \<not> isDigit c then Some (x, c # cs)
      else if x > 2 ^ 63 div 10 then None
      else if x * 10 + digitVal c > 2 ^ 63 then None
      else leadingInt (x * 10 + digitVal c) cs)"

text \<open>
  \<open>leadingFraction\<close> consumes the leading digits as a fraction: it returns the digits
  read as a number and the scale \<open>10 ^ k\<close> for \<open>k\<close> digits, and stops accumulating (but
  keeps consuming) once the number would overflow. Go keeps the scale in a \<open>float64\<close>;
  it is at most \<open>10 ^ 19\<close>, and a power of ten up to \<open>10 ^ 22\<close> is exact there.
\<close>

fun leadingFraction :: "nat \<Rightarrow> nat \<Rightarrow> bool \<Rightarrow> string \<Rightarrow> nat \<times> nat \<times> string" where
  "leadingFraction x scale overflow [] = (x, scale, [])"
| "leadingFraction x scale overflow (c # cs) =
     (if \<not> isDigit c then (x, scale, c # cs)
      else if overflow then leadingFraction x scale overflow cs
      else if x > (2 ^ 63 - 1) div 10 then leadingFraction x scale True cs
      else if x * 10 + digitVal c > 2 ^ 63 then leadingFraction x scale True cs
      else leadingFraction (x * 10 + digitVal c) (scale * 10) overflow cs)"

text \<open>Go's \<open>unitMap\<close>: the units of \<open>time.ParseDuration\<close>, in nanoseconds.\<close>

definition unitMap :: "string \<Rightarrow> nat option" where
  "unitMap u =
     (if u = ''ns'' then Some time_Nanosecond
      else if u = ''us'' then Some time_Microsecond
      else if u = [CHR 0xC2, CHR 0xB5, CHR ''s''] then Some time_Microsecond
      else if u = [CHR 0xCE, CHR 0xBC, CHR ''s''] then Some time_Microsecond
      else if u = ''ms'' then Some time_Millisecond
      else if u = ''s'' then Some time_Second
      else if u = ''m'' then Some time_Minute
      else if u = ''h'' then Some time_Hour
      else None)"

text \<open>A unit runs up to the next period or digit.\<close>

definition isUnitChar :: "char \<Rightarrow> bool" where
  "isUnitChar c = (\<not> (c = CHR ''.'' \<or> isDigit c))"

text \<open>
  The optional fraction \<open>(\.[0-9]*)?\<close> after the integer part: the fraction, its scale,
  the rest of the input, and Go's flag \<open>post\<close> (a digit was consumed after the period).
\<close>

definition fractionPart :: "string \<Rightarrow> nat \<times> nat \<times> string \<times> bool" where
  "fractionPart s =
     (case s of
        [] \<Rightarrow> (0, 1, s, False)
      | c # r \<Rightarrow>
          if c = CHR ''.''
          then (case leadingFraction 0 1 False r of
                  (f, scale, r') \<Rightarrow> (f, scale, r', length r \<noteq> length r'))
          else (0, 1, s, False))"

text \<open>Go's \<open>uint64(float64(f) * (float64(unit) / scale))\<close>.\<close>

definition fractionNanos :: "nat \<Rightarrow> nat \<Rightarrow> nat \<Rightarrow> nat" where
  "fractionNanos f unit scale =
     f64_trunc (f64_mul (f64_of_nat f) (f64_div (f64_of_nat unit) (f64_of_nat scale)))"

text \<open>
  The value of one term \<open>v.f unit\<close> in nanoseconds, with Go's two overflow checks
  (\<open>v > 1<<63/unit\<close> before the multiplication, \<open>v > 1<<63\<close> after the fraction is
  added).
\<close>

definition scaleByUnit :: "nat \<Rightarrow> nat \<Rightarrow> nat \<Rightarrow> string \<Rightarrow> nat option" where
  "scaleByUnit v f scale u =
     (case unitMap u of
        None \<Rightarrow> None
      | Some unit \<Rightarrow>
          if v > 2 ^ 63 div unit then None
          else if f > 0
          then (if v * unit + fractionNanos f unit scale > 2 ^ 63 then None
                else Some (v * unit + fractionNanos f unit scale))
          else Some (v * unit))"

text \<open>
  One pass of the loop of \<open>time.ParseDuration\<close>: the next character must be a period
  or a digit; then the integer part, the fraction, and the unit are consumed. The flag
  \<open>pre\<close> of the Go code is \<open>length s \<noteq> length s1\<close>. The result is the term's value
  and the rest of the input.
\<close>

definition parseDurationTerm :: "string \<Rightarrow> (nat \<times> string) option" where
  "parseDurationTerm s =
     (case s of
        [] \<Rightarrow> None
      | c # _ \<Rightarrow>
          if \<not> (c = CHR ''.'' \<or> isDigit c) then None
          else
            (case leadingInt 0 s of
               None \<Rightarrow> None
             | Some (v, s1) \<Rightarrow>
                 (case fractionPart s1 of
                    (f, scale, s2, post) \<Rightarrow>
                      if \<not> (length s \<noteq> length s1) \<and> \<not> post then None
                      else if takeWhile isUnitChar s2 = [] then None
                      else (case scaleByUnit v f scale (takeWhile isUnitChar s2) of
                              None \<Rightarrow> None
                            | Some v' \<Rightarrow> Some (v', dropWhile isUnitChar s2)))))"

lemma leadingInt_length: "leadingInt x s = Some (v, r) \<Longrightarrow> length r \<le> length s"
  by (induction x s rule: leadingInt.induct) (auto split: if_splits)

lemma leadingFraction_length:
  "leadingFraction x sc ov s = (f, sc', r) \<Longrightarrow> length r \<le> length s"
  by (induction x sc ov s rule: leadingFraction.induct) (auto split: if_splits)

lemma fractionPart_length: "fractionPart s = (f, sc, r, post) \<Longrightarrow> length r \<le> length s"
  by (auto simp: fractionPart_def split: list.splits if_splits prod.splits
      dest!: leadingFraction_length)

lemma dropWhile_takeWhile_length:
  "takeWhile P s \<noteq> [] \<Longrightarrow> length (dropWhile P s) < length s"
  by (induction s) (auto split: if_splits simp: less_Suc_eq_le length_dropWhile_le)

lemma parseDurationTerm_length:
  assumes "parseDurationTerm s = Some (v, r)"
  shows "length r < length s"
proof -
  from assms obtain v0 s1 where li: "leadingInt 0 s = Some (v0, s1)"
    by (auto simp: parseDurationTerm_def split: list.splits if_splits option.splits)
  obtain f sc s2 post where fp: "fractionPart s1 = (f, sc, s2, post)"
    by (cases "fractionPart s1") auto
  from assms li fp have u: "takeWhile isUnitChar s2 \<noteq> []" and r: "r = dropWhile isUnitChar s2"
    by (auto simp: parseDurationTerm_def split: list.splits if_splits option.splits)
  have "length (dropWhile isUnitChar s2) < length s2"
    using u by (rule dropWhile_takeWhile_length)
  moreover have "length s2 \<le> length s1" using fp by (rule fractionPart_length)
  moreover have "length s1 \<le> length s" using li by (rule leadingInt_length)
  ultimately show ?thesis using r by simp
qed

text \<open>
  The loop \<open>for s != ""\<close>: \<open>d\<close> is the \<open>uint64\<close> sum so far, so the addition wraps
  at \<open>2 ^ 64\<close>, and the loop fails once the sum exceeds \<open>2 ^ 63\<close>.
\<close>

function parseDurationLoop :: "nat \<Rightarrow> string \<Rightarrow> nat option" where
  "parseDurationLoop d s =
     (if s = [] then Some d
      else (case parseDurationTerm s of
              None \<Rightarrow> None
            | Some (v, r) \<Rightarrow>
                if (d + v) mod 2 ^ 64 > 2 ^ 63 then None
                else parseDurationLoop ((d + v) mod 2 ^ 64) r))"
  by pat_completeness auto
termination
  by (relation "measure (\<lambda>(d, s). length s)") (auto dest: parseDurationTerm_length)

declare parseDurationLoop.simps [simp del]

text \<open>
  \<open>time.ParseDuration\<close>: an optional sign, the special case \<open>"0"\<close>, the loop, and the
  final range check. \<open>None\<close> is any of its errors (the program only tests
  \<open>err == nil\<close>).
\<close>

definition time_ParseDuration :: "string \<Rightarrow> Duration option" where
  "time_ParseDuration orig =
     (case (case orig of
              [] \<Rightarrow> (False, orig)
            | c # cs \<Rightarrow>
                if c = CHR ''-'' \<or> c = CHR ''+'' then (c = CHR ''-'', cs) else (False, orig)) of
        (neg, s) \<Rightarrow>
          if s = ''0'' then Some 0
          else if s = [] then None
          else (case parseDurationLoop 0 s of
                  None \<Rightarrow> None
                | Some d \<Rightarrow>
                    if neg then Some (wrap64 (- int d))
                    else if d > 2 ^ 63 - 1 then None
                    else Some (int d)))"

subsection \<open>The regular expression of the extended duration parser\<close>

text \<open>
  The program compiles one regular expression,
  \<^verbatim>\<open>(\d+(?:\.\d+)?)\s*(months?|w|d|h|m|s|ms|us|<micro>s|ns)\<close>
  and calls \<open>FindAllStringSubmatch(s, -1)\<close> on it. Go's \<open>regexp\<close> finds the
  leftmost match and, among the matches that start there, the one that a backtracking
  search would find first: a repetition takes as much as it can, and the alternatives are
  tried from left to right. For this expression the first attempt of that search is the
  only one that can succeed: after fewer digits the next character is a digit, after
  less white space it is white space, and after a dropped fraction it is a period, and
  none of these starts a unit. Nothing follows the alternation, so its first alternative
  that fits ends the match. So the match at a position is computed by one greedy pass.

  \<open>\d\<close> is an ASCII digit and \<open>\s\<close> is one of tab, line feed, form feed, carriage
  return and space.
\<close>

definition isSpace :: "char \<Rightarrow> bool" where
  "isSpace c = (c \<in> set [CHR 0x09, CHR 0x0A, CHR 0x0C, CHR 0x0D, CHR 0x20])"

text \<open>
  The alternatives of the second group in the order they are tried; \<open>months?\<close> tries
  \<open>months\<close> before \<open>month\<close>.
\<close>

definition durationUnits :: "string list" where
  "durationUnits =
     [''months'', ''month'', ''w'', ''d'', ''h'', ''m'', ''s'', ''ms'', ''us'',
      [CHR 0xC2, CHR 0xB5, CHR ''s''], ''ns'']"

fun matchUnit :: "string list \<Rightarrow> string \<Rightarrow> string option" where
  "matchUnit [] s = None"
| "matchUnit (u # us) s = (if take (length u) s = u then Some u else matchUnit us s)"

text \<open>The first group \<^verbatim>\<open>\d+(?:\.\d+)?\<close> at the start of \<open>s\<close>, and the rest.\<close>

definition matchNumber :: "string \<Rightarrow> (string \<times> string) option" where
  "matchNumber s =
     (if takeWhile isDigit s = [] then None
      else (case dropWhile isDigit s of
              [] \<Rightarrow> Some (takeWhile isDigit s, [])
            | c # r \<Rightarrow>
                if c = CHR ''.'' \<and> takeWhile isDigit r \<noteq> []
                then Some (takeWhile isDigit s @ [c] @ takeWhile isDigit r, dropWhile isDigit r)
                else Some (takeWhile isDigit s, c # r)))"

text \<open>
  A match of the whole expression at the start of \<open>s\<close>: the triple \<open>match[0]\<close> (the
  matched text), \<open>match[1]\<close> (the number), \<open>match[2]\<close> (the unit), and the input
  after the match.
\<close>

definition matchDurationToken ::
  "string \<Rightarrow> ((string \<times> string \<times> string) \<times> string) option" where
  "matchDurationToken s =
     (case matchNumber s of
        None \<Rightarrow> None
      | Some (num, r) \<Rightarrow>
          (case matchUnit durationUnits (dropWhile isSpace r) of
             None \<Rightarrow> None
           | Some u \<Rightarrow>
               Some ((num @ takeWhile isSpace r @ u, num, u),
                     drop (length u) (dropWhile isSpace r))))"

lemma matchNumber_length: "matchNumber s = Some (num, r) \<Longrightarrow> length r < length s"
proof -
  assume a: "matchNumber s = Some (num, r)"
  then have ne: "takeWhile isDigit s \<noteq> []"
    by (auto simp: matchNumber_def split: if_splits)
  then have l: "length (dropWhile isDigit s) < length s"
    by (rule dropWhile_takeWhile_length)
  define d where "d = dropWhile isDigit s"
  have "length r \<le> length d"
  proof (cases d)
    case Nil
    with a ne show ?thesis unfolding matchNumber_def d_def [symmetric] by simp
  next
    case (Cons c r')
    have "length (dropWhile isDigit r') \<le> length r'" by (rule length_dropWhile_le)
    with a ne Cons show ?thesis unfolding matchNumber_def d_def [symmetric]
      by (auto split: if_splits)
  qed
  then have "length r \<le> length (dropWhile isDigit s)" by (simp add: d_def)
  with l show ?thesis by simp
qed

lemma matchDurationToken_length:
  "matchDurationToken s = Some (m, r) \<Longrightarrow> length r < length s"
proof -
  assume a: "matchDurationToken s = Some (m, r)"
  then obtain num r1 where n: "matchNumber s = Some (num, r1)"
    by (auto simp: matchDurationToken_def split: option.splits)
  with a have "\<exists>u :: string. r = drop (length u) (dropWhile isSpace r1)"
    by (auto simp: matchDurationToken_def split: option.splits)
  then have "length r \<le> length r1"
    using length_dropWhile_le [of isSpace r1] by auto
  with matchNumber_length [OF n] show ?thesis by simp
qed

text \<open>
  \<open>FindAllStringSubmatch\<close>: the successive matches, from left to right, without
  overlap. Where no match starts, the search moves on by one character; after a match
  (which is never empty) it continues behind it.
\<close>

function regexp_FindAllStringSubmatch :: "string \<Rightarrow> (string \<times> string \<times> string) list" where
  "regexp_FindAllStringSubmatch s =
     (if s = [] then []
      else (case matchDurationToken s of
              None \<Rightarrow> regexp_FindAllStringSubmatch (tl s)
            | Some (m, r) \<Rightarrow> m # regexp_FindAllStringSubmatch r))"
  by pat_completeness auto
termination
  by (relation "measure length") (auto dest: matchDurationToken_length)

declare regexp_FindAllStringSubmatch.simps [simp del]

subsection \<open>\<open>strconv.ParseFloat\<close>\<close>

text \<open>
  The program calls \<open>strconv.ParseFloat(match[1], 64)\<close> only on the first group of the
  regular expression, which is a string of digits, optionally a period and more digits.
  On such a string \<open>ParseFloat\<close> returns the \<open>float64\<close> nearest to the decimal number,
  and a range error when that is infinite. The model is \<open>None\<close> on the range error, and
  on strings of any other shape, which the program never passes.
\<close>

definition strconv_ParseFloat :: "string \<Rightarrow> float64 option" where
  "strconv_ParseFloat s =
     (if matchNumber s = Some (s, [])
      then (case nearestFloat64
                   (natOfDigits (takeWhile isDigit s @ drop 1 (dropWhile isDigit s)))
                   (10 ^ length (drop 1 (dropWhile isDigit s))) of
              (m, e) \<Rightarrow> if e \<ge> 0 \<and> m * 2 ^ nat e \<ge> 2 ^ 1024 then None else Some (m, e))
      else None)"

subsection \<open>\<open>time.Time\<close> and \<open>time.Parse\<close>\<close>

text \<open>
  A \<open>time.Time\<close> is an instant together with a location. It is modelled by the civil
  date and time that its methods \<open>Year\<close>, \<open>Month\<close>, \<open>Day\<close>, \<open>Hour\<close>, \<open>Minute\<close>,
  \<open>Second\<close>, \<open>Nanosecond\<close> return, and the offset of its location from UTC in seconds;
  \<open>instant\<close> is the number of nanoseconds between the zero \<open>Time\<close> (1 January of
  year 1, 00:00:00 UTC) and the instant, in the proleptic Gregorian calendar.
  Comparisons and differences of times depend on the instants only.
\<close>

record Time =
  Year :: int
  Month :: int
  Day :: int
  Hour :: int
  Minute :: int
  Second :: int
  Nanosecond :: int
  zoneOffset :: int

definition isLeap :: "int \<Rightarrow> bool" where
  "isLeap y = (y mod 4 = 0 \<and> (y mod 100 \<noteq> 0 \<or> y mod 400 = 0))"

definition daysIn :: "int \<Rightarrow> int \<Rightarrow> int" where
  "daysIn m y =
     (if m = 2 then (if isLeap y then 29 else 28)
      else if m = 4 \<or> m = 6 \<or> m = 9 \<or> m = 11 then 30
      else 31)"

text \<open>Days of a common year before the first of month \<open>m\<close>.\<close>

definition daysBefore :: "int \<Rightarrow> int" where
  "daysBefore m =
     (if m = 1 then 0 else if m = 2 then 31 else if m = 3 then 59 else if m = 4 then 90
      else if m = 5 then 120 else if m = 6 then 151 else if m = 7 then 181
      else if m = 8 then 212 else if m = 9 then 243 else if m = 10 then 273
      else if m = 11 then 304 else 334)"

text \<open>Days from 1 January of year 1 to the given date.\<close>

definition daysSinceZero :: "int \<Rightarrow> int \<Rightarrow> int \<Rightarrow> int" where
  "daysSinceZero y m d =
     365 * (y - 1) + (y - 1) div 4 - (y - 1) div 100 + (y - 1) div 400
       + daysBefore m + (if isLeap y \<and> m > 2 then 1 else 0) + (d - 1)"

definition instant :: "Time \<Rightarrow> int" where
  "instant t =
     ((daysSinceZero (Year t) (Month t) (Day t) * 86400
        + Hour t * 3600 + Minute t * 60 + Second t - zoneOffset t) * 1000000000)
       + Nanosecond t"

text \<open>
  \<open>time.Date(y, m, d, h, mi, s, ns, time.UTC)\<close>. Go normalises fields that are out
  of range; the program and \<open>time.Parse\<close> pass fields that are in range, where
  normalising changes nothing.
\<close>

definition time_Date :: "int \<Rightarrow> int \<Rightarrow> int \<Rightarrow> int \<Rightarrow> int \<Rightarrow> int \<Rightarrow> int \<Rightarrow> Time" where
  "time_Date y m d h mi s ns =
     \<lparr> Year = y, Month = m, Day = d, Hour = h, Minute = mi, Second = s,
       Nanosecond = ns, zoneOffset = 0 \<rparr>"

text \<open>The zero value \<open>time.Time{}\<close>.\<close>

definition zeroTime :: Time where
  "zeroTime = time_Date 1 1 1 0 0 0 0"

text \<open>
  \<open>t.Sub(u)\<close>: the difference of the instants, and the largest or smallest
  \<open>Duration\<close> when the difference does not fit. \<open>time.Since(t)\<close> is
  \<open>time.Now().Sub(t)\<close>; the reading of the clock is the argument \<open>now\<close>.
  \<open>t.After(u)\<close> compares the instants.
\<close>

definition time_Sub :: "Time \<Rightarrow> Time \<Rightarrow> Duration" where
  "time_Sub t u =
     (if instant t - instant u > maxDuration then maxDuration
      else if instant t - instant u < minDuration then minDuration
      else instant t - instant u)"

definition time_Since :: "Time \<Rightarrow> Time \<Rightarrow> Duration" where
  "time_Since now t = time_Sub now t"

definition time_After :: "Time \<Rightarrow> Time \<Rightarrow> bool" where
  "time_After t u = (instant t > instant u)"

text \<open>
  \<open>time.Parse(layout, value)\<close> splits the layout into literal text and reference
  elements (\<open>2006\<close>, \<open>01\<close>, \<open>02\<close>, \<open>15\<close>, \<open>04\<close>, \<open>05\<close>, \<open>Z07:00\<close>) and consumes the
  value element by element. The program uses four layouts; \<open>layoutChunks\<close> gives the
  elements of each, and is \<open>None\<close> on any other layout, which the program never passes.
\<close>

datatype layoutChunk =
    Lit string | stdLongYear | stdZeroMonth | stdZeroDay | stdHour | stdZeroMinute
  | stdZeroSecond | stdISO8601ColonTZ

definition time_RFC3339 :: string where
  "time_RFC3339 = ''2006-01-02T15:04:05Z07:00''"

definition layoutChunks :: "string \<Rightarrow> layoutChunk list option" where
  "layoutChunks layout =
     (if layout = ''2006-01-02T15:04:05Z07:00''
      then Some [stdLongYear, Lit ''-'', stdZeroMonth, Lit ''-'', stdZeroDay, Lit ''T'', stdHour,
                 Lit '':'', stdZeroMinute, Lit '':'', stdZeroSecond, stdISO8601ColonTZ]
      else if layout = ''2006-01-02T15:04:05''
      then Some [stdLongYear, Lit ''-'', stdZeroMonth, Lit ''-'', stdZeroDay, Lit ''T'', stdHour,
                 Lit '':'', stdZeroMinute, Lit '':'', stdZeroSecond]
      else if layout = ''2006-01-02T15:04''
      then Some [stdLongYear, Lit ''-'', stdZeroMonth, Lit ''-'', stdZeroDay, Lit ''T'', stdHour,
                 Lit '':'', stdZeroMinute]
      else if layout = ''2006-01-02''
      then Some [stdLongYear, Lit ''-'', stdZeroMonth, Lit ''-'', stdZeroDay]
      else None)"

text \<open>
  Go's \<open>getnum\<close>: one or two digits; exactly two when \<open>fixed\<close>.
\<close>

definition getnum :: "string \<Rightarrow> bool \<Rightarrow> (int \<times> string) option" where
  "getnum s fixed =
     (case s of
        [] \<Rightarrow> None
      | c0 # r0 \<Rightarrow>
          if \<not> isDigit c0 then None
          else (case r0 of
                  [] \<Rightarrow> if fixed then None else Some (int (digitVal c0), r0)
                | c1 # r1 \<Rightarrow>
                    if \<not> isDigit c1
                    then (if fixed then None else Some (int (digitVal c0), r0))
                    else Some (int (digitVal c0) * 10 + int (digitVal c1), r1)))"

definition commaOrPeriod :: "char \<Rightarrow> bool" where
  "commaOrPeriod c = (c = CHR ''.'' \<or> c = CHR '','')"

text \<open>
  The nanoseconds of a fraction of a second given by its digits: at most nine digits
  count.
\<close>

definition parseNanoseconds :: "string \<Rightarrow> int" where
  "parseNanoseconds digits =
     int (natOfDigits (take 9 digits)) * 10 ^ (9 - length (take 9 digits))"

text \<open>
  When parsing, a fraction of a second may follow the seconds (a period or comma and at
  least one digit) although the layout has none; this applies to the two layouts of the
  program that have seconds.
\<close>

definition parseSecondFraction :: "string \<Rightarrow> int \<times> string" where
  "parseSecondFraction v =
     (case v of
        c # d # r \<Rightarrow>
          if commaOrPeriod c \<and> isDigit d
          then (parseNanoseconds (takeWhile isDigit (d # r)), dropWhile isDigit (d # r))
          else (0, v)
      | _ \<Rightarrow> (0, v))"

text \<open>
  The element \<open>Z07:00\<close>: either \<open>Z\<close> (UTC), or a sign, two digits, a colon and two
  digits, with hours up to 24 and minutes up to 60. The result is the offset in seconds.
\<close>

definition parseZone :: "string \<Rightarrow> (int \<times> string) option" where
  "parseZone v =
     (case v of
        [] \<Rightarrow> None
      | c # r \<Rightarrow>
          if c = CHR ''Z'' then Some (0, r)
          else if length v < 6 then None
          else if v ! 3 \<noteq> CHR '':'' then None
          else (case getnum (take 2 r) True of
                  None \<Rightarrow> None
                | Some (hr, _) \<Rightarrow>
                    (case getnum (take 2 (drop 4 v)) True of
                       None \<Rightarrow> None
                     | Some (mm, _) \<Rightarrow>
                         if hr > 24 \<or> mm > 60 then None
                         else if c = CHR ''+'' then Some ((hr * 60 + mm) * 60, drop 6 v)
                         else if c = CHR ''-'' then Some (- ((hr * 60 + mm) * 60), drop 6 v)
                         else None)))"

text \<open>One element of the layout, with the range checks that \<open>time.Parse\<close> makes on it.\<close>

fun parseChunk :: "layoutChunk \<Rightarrow> Time \<Rightarrow> string \<Rightarrow> (Time \<times> string) option" where
  "parseChunk (Lit p) t v = (if take (length p) v = p then Some (t, drop (length p) v) else None)"
| "parseChunk stdLongYear t v =
     (if length v < 4 \<or> \<not> isDigit (v ! 0) then None
      else if list_all isDigit (take 4 v)
      then Some (t\<lparr> Year := int (natOfDigits (take 4 v)) \<rparr>, drop 4 v)
      else None)"
| "parseChunk stdZeroMonth t v =
     (case getnum v True of
        None \<Rightarrow> None
      | Some (month, r) \<Rightarrow>
          if month \<le> 0 \<or> 12 < month then None else Some (t\<lparr> Month := month \<rparr>, r))"
| "parseChunk stdZeroDay t v =
     (case getnum v True of
        None \<Rightarrow> None
      | Some (day, r) \<Rightarrow> Some (t\<lparr> Day := day \<rparr>, r))"
| "parseChunk stdHour t v =
     (case getnum v False of
        None \<Rightarrow> None
      | Some (hour, r) \<Rightarrow>
          if hour < 0 \<or> 24 \<le> hour then None else Some (t\<lparr> Hour := hour \<rparr>, r))"
| "parseChunk stdZeroMinute t v =
     (case getnum v True of
        None \<Rightarrow> None
      | Some (mi, r) \<Rightarrow>
          if mi < 0 \<or> 60 \<le> mi then None else Some (t\<lparr> Minute := mi \<rparr>, r))"
| "parseChunk stdZeroSecond t v =
     (case getnum v True of
        None \<Rightarrow> None
      | Some (sec, r) \<Rightarrow>
          if sec < 0 \<or> 60 \<le> sec then None
          else Some (t\<lparr> Second := sec, Nanosecond := fst (parseSecondFraction r) \<rparr>,
                     snd (parseSecondFraction r)))"
| "parseChunk stdISO8601ColonTZ t v =
     (case parseZone v of
        None \<Rightarrow> None
      | Some (off, r) \<Rightarrow> Some (t\<lparr> zoneOffset := off \<rparr>, r))"

text \<open>
  All elements in turn; at the end no text may be left over and the day must exist in
  its month.
\<close>

fun parseChunks :: "layoutChunk list \<Rightarrow> Time \<Rightarrow> string \<Rightarrow> Time option" where
  "parseChunks [] t v =
     (if v \<noteq> [] then None
      else if Day t < 1 \<or> Day t > daysIn (Month t) (Year t) then None
      else Some t)"
| "parseChunks (c # cs) t v =
     (case parseChunk c t v of
        None \<Rightarrow> None
      | Some (t', v') \<Rightarrow> parseChunks cs t' v')"

text \<open>
  \<open>time.Parse\<close>; \<open>None\<close> is any of its errors. A value without a zone is in UTC.
\<close>

definition time_Parse :: "string \<Rightarrow> string \<Rightarrow> Time option" where
  "time_Parse layout v =
     (case layoutChunks layout of
        None \<Rightarrow> None
      | Some cs \<Rightarrow> parseChunks cs (time_Date 0 1 1 0 0 0 0) v)"

subsection \<open>\<open>Duration.String\<close>\<close>

text \<open>
  The format verb \<open>%s\<close> prints a \<open>Duration\<close> by its method \<open>String\<close>: hours,
  minutes and seconds as in \<open>2h0m0s\<close> or \<open>1.5s\<close>, and a smaller unit below one second.
\<close>

fun fmtInt :: "nat \<Rightarrow> string" where
  "fmtInt v = (if v < 10 then [digitChar v] else fmtInt (v div 10) @ [digitChar (v mod 10)])"

declare fmtInt.simps [simp del]

text \<open>
  The last \<open>prec\<close> decimal digits of \<open>v\<close> behind a period, without trailing zeros (and
  without the period when all are zero); \<open>pr\<close> is Go's flag \<open>print\<close>.
\<close>

fun fmtFracDigits :: "nat \<Rightarrow> nat \<Rightarrow> bool \<Rightarrow> string" where
  "fmtFracDigits prec v pr =
     (if prec = 0 then (if pr then ''.'' else [])
      else if pr \<or> v mod 10 \<noteq> 0
      then fmtFracDigits (prec - 1) (v div 10) True @ [digitChar (v mod 10)]
      else fmtFracDigits (prec - 1) (v div 10) False)"

declare fmtFracDigits.simps [simp del]

definition fmtFrac :: "nat \<Rightarrow> nat \<Rightarrow> string \<times> nat" where
  "fmtFrac v prec = (fmtFracDigits prec v False, v div 10 ^ prec)"

definition formatUnsigned :: "nat \<Rightarrow> string" where
  "formatUnsigned u =
     (if u < time_Second
      then (if u = 0 then ''0s''
            else if u < time_Microsecond then fmtInt u @ ''ns''
            else if u < time_Millisecond
            then fmtInt (snd (fmtFrac u 3)) @ fst (fmtFrac u 3) @ [CHR 0xC2, CHR 0xB5, CHR ''s'']
            else fmtInt (snd (fmtFrac u 6)) @ fst (fmtFrac u 6) @ ''ms'')
      else
        (if snd (fmtFrac u 9) div 60 > 0
         then (if snd (fmtFrac u 9) div 60 div 60 > 0
               then fmtInt (snd (fmtFrac u 9) div 60 div 60) @ ''h''
               else [])
              @ fmtInt (snd (fmtFrac u 9) div 60 mod 60) @ ''m''
         else [])
        @ fmtInt (snd (fmtFrac u 9) mod 60) @ fst (fmtFrac u 9) @ ''s'')"

definition Duration_String :: "Duration \<Rightarrow> string" where
  "Duration_String d =
     (if d < 0 then ''-'' @ formatUnsigned (nat (- d)) else formatUnsigned (nat d))"

subsection \<open>Kubernetes objects\<close>

text \<open>
  The value of a Go \<open>interface{}\<close> by its dynamic type, as far as the program
  distinguishes types: the result of a rule's expression is inspected by a type switch
  with cases \<open>bool\<close>, \<open>string\<close>, \<open>[]interface{}\<close> and \<open>map[string]interface{}\<close>.
  \<open>GoOther\<close> is a value of any other dynamic type.
\<close>

datatype GoValue =
    GoBool bool
  | GoString string
  | GoSlice "GoValue list"
  | GoMap "(string \<times> GoValue) list"
  | GoInt int
  | GoNil
  | GoOther

text \<open>
  An \<open>unstructured.Unstructured\<close> object, by what the program reads from it:
  \<open>GetKind()\<close>, \<open>GetName()\<close>, \<open>GetUID()\<close>, \<open>GetAnnotations()\<close> (a
  \<open>map[string]string\<close>), the string at \<open>metadata.creationTimestamp\<close> (empty when
  the field is absent), and the whole tree \<open>obj.Object\<close>, which the rule expressions
  see.
\<close>

record Object =
  objKind :: string
  objName :: string
  objUID :: string
  creationTimestamp :: string
  annotations :: "string \<rightharpoonup> string"
  content :: GoValue

text \<open>
  \<open>GetCreationTimestamp().Time\<close>: the client library parses the field with
  \<open>time.Parse(time.RFC3339, str)\<close>; an empty string, the string \<open>null\<close> and a
  string that does not parse leave the zero \<open>Time\<close>. (The library then moves the
  time to the local zone, which keeps the instant.)
\<close>

definition GetCreationTimestamp :: "Object \<Rightarrow> Time" where
  "GetCreationTimestamp obj =
     (if length (creationTimestamp obj) = 0 then zeroTime
      else if creationTimestamp obj = ''null'' then zeroTime
      else (case time_Parse time_RFC3339 (creationTimestamp obj) of
              None \<Rightarrow> zeroTime
            | Some pt \<Rightarrow> pt))"

section \<open>The program\<close>

subsection \<open>Errors\<close>

text \<open>
  The program builds its errors with \<open>fmt.Errorf\<close>. Each constructor stands for one
  format string of the source and carries the arguments that the message is built from;
  a wrapped cause (\<open>%w\<close>) is the last argument. \<open>TimeInvalidDuration\<close> is the error
  of \<open>time.ParseDuration\<close>.
\<close>

datatype error =
    InvalidDurationFormat string
  | InvalidNumber string
  | UnknownTimeUnit string
  | TimeInvalidDuration string
  | UnableToParseExpiration string
  | CelEnvFailed string
  | InvalidRuleID string
  | InvalidTTL string string error
  | CompileFailed string string
  | ProgramFailed string string

subsection \<open>internal/janitor: \<open>ParseExtendedDuration\<close>\<close>

text \<open>
  The \<open>switch unit\<close> of the source: the duration of one token,
  \<open>time.Duration(value * 30 * 24 * float64(time.Hour))\<close> for a month and so on; the
  products are taken from left to right. \<open>None\<close> is the \<open>default\<close> branch
  (\<open>unknown time unit\<close>).
\<close>

definition unitDuration :: "Duration \<Rightarrow> float64 \<Rightarrow> string \<Rightarrow> Duration option" where
  "unitDuration ovf v unit =
     (if unit = ''month'' \<or> unit = ''months''
      then Some (toDuration ovf
                  (f64_mul (f64_mul (f64_mul v (f64_of_nat 30)) (f64_of_nat 24)) (f64_of_nat time_Hour)))
      else if unit = ''w''
      then Some (toDuration ovf
                  (f64_mul (f64_mul (f64_mul v (f64_of_nat 7)) (f64_of_nat 24)) (f64_of_nat time_Hour)))
      else if unit = ''d''
      then Some (toDuration ovf (f64_mul (f64_mul v (f64_of_nat 24)) (f64_of_nat time_Hour)))
      else if unit = ''h'' then Some (toDuration ovf (f64_mul v (f64_of_nat time_Hour)))
      else if unit = ''m'' then Some (toDuration ovf (f64_mul v (f64_of_nat time_Minute)))
      else if unit = ''s'' then Some (toDuration ovf (f64_mul v (f64_of_nat time_Second)))
      else if unit = ''ms'' then Some (toDuration ovf (f64_mul v (f64_of_nat time_Millisecond)))
      else if unit = ''us'' \<or> unit = [CHR 0xC2, CHR 0xB5, CHR ''s'']
      then Some (toDuration ovf (f64_mul v (f64_of_nat time_Microsecond)))
      else if unit = ''ns'' then Some (toDuration ovf (f64_mul v (f64_of_nat time_Nanosecond)))
      else None)"

text \<open>
  The loop \<open>for _, match := range matches\<close>: parse the number, take the unit's
  duration, and add it to \<open>totalDuration\<close> (an \<open>int64\<close> addition).
\<close>

fun sumTokens ::
  "Duration \<Rightarrow> Duration \<Rightarrow> (string \<times> string \<times> string) list \<Rightarrow> error + Duration" where
  "sumTokens ovf totalDuration [] = Inr totalDuration"
| "sumTokens ovf totalDuration ((m0, m1, m2) # matches) =
     (case strconv_ParseFloat m1 of
        None \<Rightarrow> Inl (InvalidNumber m1)
      | Some v \<Rightarrow>
          (case unitDuration ovf v m2 of
             None \<Rightarrow> Inl (UnknownTimeUnit m2)
           | Some d \<Rightarrow> sumTokens ovf (wrap64 (totalDuration + d)) matches))"

text \<open>\<open>strings.ReplaceAll(s, " ", "")\<close>: every space character is removed.\<close>

definition removeSpaces :: "string \<Rightarrow> string" where
  "removeSpaces s = filter (\<lambda>c. c \<noteq> CHR '' '') s"

text \<open>The string \<open>consumed\<close>: the concatenation of \<open>match[0]\<close> over all matches.\<close>

definition consumed :: "(string \<times> string \<times> string) list \<Rightarrow> string" where
  "consumed matches = concat (map fst matches)"

text \<open>
  \<open>ParseExtendedDuration\<close>: first \<open>time.ParseDuration\<close>; when that fails, the
  tokens of the regular expression are summed, and the input is rejected when there is
  no token, when a token fails, or when the input and the consumed text differ after
  their spaces are removed.
\<close>

definition ParseExtendedDuration :: "Duration \<Rightarrow> string \<Rightarrow> error + Duration" where
  "ParseExtendedDuration ovf s =
     (case time_ParseDuration s of
        Some d \<Rightarrow> Inr d
      | None \<Rightarrow>
          if length (regexp_FindAllStringSubmatch s) = 0 then Inl (InvalidDurationFormat s)
          else (case sumTokens ovf 0 (regexp_FindAllStringSubmatch s) of
                  Inl e \<Rightarrow> Inl e
                | Inr totalDuration \<Rightarrow>
                    if removeSpaces s \<noteq> removeSpaces (consumed (regexp_FindAllStringSubmatch s))
                    then Inl (InvalidDurationFormat s)
                    else Inr totalDuration))"

subsection \<open>internal/rules\<close>

text \<open>
  The package has a private copy \<open>parseExtendedDuration\<close> of the function above, with
  the same body line by line.
\<close>

definition parseExtendedDuration :: "Duration \<Rightarrow> string \<Rightarrow> error + Duration" where
  "parseExtendedDuration ovf s = ParseExtendedDuration ovf s"

record Rule =
  ID :: string
  Resources :: "string list"
  Expression :: string
  TTL :: string

text \<open>
  A compiled CEL program: evaluated on the object (bound to the variable \<open>object\<close>,
  with \<open>_context\<close> bound to an empty map) it yields an error or a value. What an
  expression computes is the business of the CEL library; a program is any such function.
\<close>

type_synonym cel_Program = "Object \<Rightarrow> string + GoValue"

record compiledRule =
  rule :: Rule
  program :: cel_Program
  ttlDuration :: Duration

record Engine =
  rules :: "compiledRule list"

text \<open>
  The CEL environment that \<open>cel.NewEnv\<close> returns, by its two methods: \<open>env.Compile\<close>
  yields an abstract syntax tree or issues, \<open>env.Program\<close> yields a program or an
  error.
\<close>

record 'ast CelEnv =
  Compile :: "string \<Rightarrow> string + 'ast"
  Program :: "'ast \<Rightarrow> string + cel_Program"

text \<open>
  \<open>idRegex.MatchString\<close> for \<^verbatim>\<open>^[a-z][a-z0-9-]*$\<close>: in Go, \<open>$\<close> matches at the
  end of the text only.
\<close>

definition isLower :: "char \<Rightarrow> bool" where
  "isLower c = (c \<in> set ''abcdefghijklmnopqrstuvwxyz'')"

definition idRegex_MatchString :: "string \<Rightarrow> bool" where
  "idRegex_MatchString s =
     (case s of
        [] \<Rightarrow> False
      | c # cs \<Rightarrow> isLower c \<and> list_all (\<lambda>x. isLower x \<or> isDigit x \<or> x = CHR ''-'') cs)"

text \<open>
  The body of the loop of \<open>New\<close> for one rule: validate the ID, parse the TTL, compile
  the expression, create the program.
\<close>

definition compileRule :: "'ast CelEnv \<Rightarrow> Duration \<Rightarrow> Rule \<Rightarrow> error + compiledRule" where
  "compileRule env ovf r =
     (if \<not> idRegex_MatchString (ID r) then Inl (InvalidRuleID (ID r))
      else (case parseExtendedDuration ovf (TTL r) of
              Inl err \<Rightarrow> Inl (InvalidTTL (TTL r) (ID r) err)
            | Inr ttl \<Rightarrow>
                (case Compile env (Expression r) of
                   Inl issues \<Rightarrow> Inl (CompileFailed (ID r) issues)
                 | Inr ast \<Rightarrow>
                     (case Program env ast of
                        Inl err \<Rightarrow> Inl (ProgramFailed (ID r) err)
                      | Inr prog \<Rightarrow> Inr \<lparr> rule = r, program = prog, ttlDuration = ttl \<rparr>))))"

text \<open>
  The loop \<open>for _, rule := range rules\<close>; the second argument is \<open>engine.rules\<close> so
  far. The first error is returned, and the engine with it is dropped.
\<close>

fun compileRules ::
  "'ast CelEnv \<Rightarrow> Duration \<Rightarrow> compiledRule list \<Rightarrow> Rule list \<Rightarrow> error + Engine" where
  "compileRules env ovf acc [] = Inr \<lparr> rules = acc \<rparr>"
| "compileRules env ovf acc (r # rs) =
     (case compileRule env ovf r of
        Inl err \<Rightarrow> Inl err
      | Inr cr \<Rightarrow> compileRules env ovf (acc @ [cr]) rs)"

text \<open>
  \<open>rules.New\<close>. The first argument is the result of \<open>cel.NewEnv\<close> with the two
  variable declarations of the source.
\<close>

definition New :: "string + 'ast CelEnv \<Rightarrow> Duration \<Rightarrow> Rule list \<Rightarrow> error + Engine" where
  "New newEnv ovf rs =
     (case newEnv of
        Inl err \<Rightarrow> Inl (CelEnvFailed err)
      | Inr env \<Rightarrow> compileRules env ovf [] rs)"




text \<open>The rule that an error of \<open>New\<close> names in its message, if it names one.\<close>

fun errorRuleID :: "error \<Rightarrow> string option" where
  "errorRuleID (InvalidRuleID i) = Some i"
| "errorRuleID (InvalidTTL t i cause) = Some i"
| "errorRuleID (CompileFailed i issues) = Some i"
| "errorRuleID (ProgramFailed i err) = Some i"
| "errorRuleID _ = None"

text \<open>
  \<open>pluralize\<close> is the \<open>switch kind\<close> of the source: thirteen special cases, tried in
  the order of the source, and the default branch \<open>kind + "s"\<close>.
\<close>

definition pluralize :: "string \<Rightarrow> string" where
  "pluralize kind =
     (if kind = ''Pod'' then ''pods''
      else if kind = ''Service'' then ''services''
      else if kind = ''Deployment'' then ''deployments''
      else if kind = ''StatefulSet'' then ''statefulsets''
      else if kind = ''DaemonSet'' then ''daemonsets''
      else if kind = ''ReplicaSet'' then ''replicasets''
      else if kind = ''ConfigMap'' then ''configmaps''
      else if kind = ''Secret'' then ''secrets''
      else if kind = ''PersistentVolumeClaim'' then ''persistentvolumeclaims''
      else if kind = ''PersistentVolume'' then ''persistentvolumes''
      else if kind = ''Namespace'' then ''namespaces''
      else if kind = ''Ingress'' then ''ingresses''
      else if kind = ''NetworkPolicy'' then ''networkpolicies''
      else kind @ ''s'')"

text \<open>
  \<open>resourceMatches\<close> loops over the rule's \<open>resources\<close> and returns true at the first
  element that is \<open>"*"\<close>, the kind itself, or the pluralized kind.
\<close>

fun resourceMatches :: "string list \<Rightarrow> string \<Rightarrow> bool" where
  "resourceMatches [] kind = False"
| "resourceMatches (r # rs) kind =
     (if r = ''*'' \<or> r = kind \<or> r = pluralize kind then True
      else resourceMatches rs kind)"

text \<open>The kinds that have an entry of their own in the \<open>switch\<close> of \<open>pluralize\<close>.\<close>

definition pluralTable :: "(string \<times> string) list" where
  "pluralTable =
     [(''Pod'', ''pods''), (''Service'', ''services''), (''Deployment'', ''deployments''),
      (''StatefulSet'', ''statefulsets''), (''DaemonSet'', ''daemonsets''),
      (''ReplicaSet'', ''replicasets''), (''ConfigMap'', ''configmaps''),
      (''Secret'', ''secrets''), (''PersistentVolumeClaim'', ''persistentvolumeclaims''),
      (''PersistentVolume'', ''persistentvolumes''), (''Namespace'', ''namespaces''),
      (''Ingress'', ''ingresses''), (''NetworkPolicy'', ''networkpolicies'')]"

text \<open>
  The type switch at the end of \<open>evaluateRule\<close>: is the result of the expression
  truthy?
\<close>

definition truthy :: "GoValue \<Rightarrow> bool" where
  "truthy out =
     (case out of
        GoBool v \<Rightarrow> v
      | GoString v \<Rightarrow> v \<noteq> []
      | GoSlice v \<Rightarrow> length v > 0
      | GoMap v \<Rightarrow> length v > 0
      | _ \<Rightarrow> False)"

text \<open>
  \<open>evaluateRule\<close>: the kind must match; an error of the evaluation is logged and
  counts as no match.
\<close>

definition evaluateRule :: "compiledRule \<Rightarrow> Object \<Rightarrow> bool" where
  "evaluateRule cr obj =
     (if \<not> resourceMatches (Resources (rule cr)) (objKind obj) then False
      else (case program cr obj of
              Inl err \<Rightarrow> False
            | Inr out \<Rightarrow> truthy out))"

text \<open>The loop of \<open>Evaluate\<close> over \<open>e.rules\<close>, and \<open>Evaluate\<close>.\<close>

fun evaluateRules :: "compiledRule list \<Rightarrow> Object \<Rightarrow> Rule option \<times> Duration" where
  "evaluateRules [] obj = (None, 0)"
| "evaluateRules (cr # crs) obj =
     (if evaluateRule cr obj then (Some (rule cr), ttlDuration cr)
      else evaluateRules crs obj)"

definition Evaluate :: "Engine \<Rightarrow> Object \<Rightarrow> Rule option \<times> Duration" where
  "Evaluate e obj = evaluateRules (rules e) obj"

subsection \<open>internal/janitor: \<open>ResourceFilter\<close>\<close>

text \<open>
  The struct \<open>ResourceFilter\<close>. A Go \<open>map[string]bool\<close> read at a missing key yields
  \<open>false\<close>, so each of the four maps is a total function \<open>string \<Rightarrow> bool\<close> whose
  value is \<open>False\<close> wherever nothing was stored; \<open>make(map[string]bool)\<close> is the
  function that is \<open>False\<close> everywhere.
\<close>

record ResourceFilter =
  includeResources :: "string \<Rightarrow> bool"
  excludeResources :: "string \<Rightarrow> bool"
  includeNamespaces :: "string \<Rightarrow> bool"
  excludeNamespaces :: "string \<Rightarrow> bool"
  includeAllResources :: bool
  includeAllNamespaces :: bool

text \<open>The loop \<open>for _, r := range xs { m[r] = true }\<close>.\<close>

fun storeAll :: "(string \<Rightarrow> bool) \<Rightarrow> string list \<Rightarrow> (string \<Rightarrow> bool)" where
  "storeAll m [] = m"
| "storeAll m (r # rs) = storeAll (m(r := True)) rs"

definition emptyMap :: "string \<Rightarrow> bool" where
  "emptyMap = (\<lambda>_. False)"

definition NewResourceFilter ::
  "string list \<Rightarrow> string list \<Rightarrow> string list \<Rightarrow> string list \<Rightarrow> ResourceFilter" where
  "NewResourceFilter incR excR incN excN =
     (let rf = \<lparr> includeResources = emptyMap, excludeResources = emptyMap,
                 includeNamespaces = emptyMap, excludeNamespaces = emptyMap,
                 includeAllResources = False, includeAllNamespaces = False \<rparr>;
          rf = (if length incR = 0 then rf\<lparr> includeAllResources := True \<rparr>
                else rf\<lparr> includeResources := storeAll (includeResources rf) incR \<rparr>);
          rf = rf\<lparr> excludeResources := storeAll (excludeResources rf) excR \<rparr>;
          rf = (if length incN = 0 then rf\<lparr> includeAllNamespaces := True \<rparr>
                else rf\<lparr> includeNamespaces := storeAll (includeNamespaces rf) incN \<rparr>);
          rf = rf\<lparr> excludeNamespaces := storeAll (excludeNamespaces rf) excN \<rparr>
      in rf)"

definition ShouldProcessResource :: "ResourceFilter \<Rightarrow> string \<Rightarrow> bool" where
  "ShouldProcessResource rf resource =
     (if excludeResources rf resource then False
      else if includeAllResources rf then True
      else includeResources rf resource)"

definition ShouldProcessNamespace :: "ResourceFilter \<Rightarrow> string \<Rightarrow> bool" where
  "ShouldProcessNamespace rf namespace =
     (if excludeNamespaces rf namespace then False
      else if includeAllNamespaces rf then True
      else includeNamespaces rf namespace)"

subsection \<open>internal/janitor: the decision function\<close>

definition annotationTTL :: string where
  "annotationTTL = ''janitor/ttl''"

definition annotationExpires :: string where
  "annotationExpires = ''janitor/expires''"

record Config =
  DryRun :: bool
  Interval :: Duration
  Once :: bool
  IncludeResources :: "string list"
  ExcludeResources :: "string list"
  IncludeNamespaces :: "string list"
  ExcludeNamespaces :: "string list"
  RulesFile :: string
  MaxWorkers :: int

text \<open>
  The struct \<open>Janitor\<close>, by the fields that hold data: the configuration, the rule
  engine (\<open>nil\<close> when no rules file is configured) and the resource filter. The
  clients, the event recorder and the work queue are the outside world; the functions
  below take what they return as arguments and record what is sent to them in the
  \<open>World\<close>.
\<close>

record Janitor =
  Config :: Config
  RuleEngine :: "Engine option"
  ResourceFilter :: ResourceFilter

definition formats :: "string list" where
  "formats = [time_RFC3339, ''2006-01-02T15:04:05'', ''2006-01-02T15:04'', ''2006-01-02'']"

text \<open>
  The loop of \<open>parseExpirationTime\<close> over the formats: the first format that parses
  answers; a time in the date-only format is rebuilt at midnight UTC.
\<close>

fun tryFormats :: "string list \<Rightarrow> string \<Rightarrow> error + Time" where
  "tryFormats [] expires = Inl (UnableToParseExpiration expires)"
| "tryFormats (format # fs) expires =
     (case time_Parse format expires of
        Some t \<Rightarrow>
          if format = ''2006-01-02''
          then Inr (time_Date (Year t) (Month t) (Day t) 0 0 0 0)
          else Inr t
      | None \<Rightarrow> tryFormats fs expires)"

definition parseExpirationTime :: "string \<Rightarrow> error + Time" where
  "parseExpirationTime expires = tryFormats formats expires"

text \<open>
  \<open>shouldDelete\<close>. The arguments \<open>ovf\<close> and \<open>now\<close> are the two things the function
  takes from its environment: the result of an out-of-range conversion (see
  \<open>toDuration\<close>) and the reading of the clock (each path through the function reads it
  once). The warnings that the function logs are not modelled.
\<close>

definition shouldDelete :: "Duration \<Rightarrow> Time \<Rightarrow> Janitor \<Rightarrow> Object \<Rightarrow> bool \<times> string" where
  "shouldDelete ovf now j obj =
     (case annotations obj annotationTTL of
        Some ttl \<Rightarrow>
          (case ParseExtendedDuration ovf ttl of
             Inl err \<Rightarrow> (False, [])
           | Inr duration \<Rightarrow>
               if time_Since now (GetCreationTimestamp obj) > duration
               then (True, ''TTL expired (age: ''
                             @ Duration_String (time_Since now (GetCreationTimestamp obj))
                             @ '', ttl: '' @ Duration_String duration @ '')'')
               else (False, []))
      | None \<Rightarrow>
          (case annotations obj annotationExpires of
             Some expires \<Rightarrow>
               (case parseExpirationTime expires of
                  Inl err \<Rightarrow> (False, [])
                | Inr expirationTime \<Rightarrow>
                    if time_After now expirationTime
                    then (True, ''Expiration time reached ('' @ expires @ '')'')
                    else (False, []))
           | None \<Rightarrow>
               (case RuleEngine j of
                  None \<Rightarrow> (False, [])
                | Some engine \<Rightarrow>
                    (case Evaluate engine obj of
                       (None, ttl) \<Rightarrow> (False, [])
                     | (Some r, ttl) \<Rightarrow>
                         if time_Since now (GetCreationTimestamp obj) > ttl
                         then (True, ''Rule '' @ [CHR 0x27] @ ID r @ [CHR 0x27]
                                       @ '' matched (age: ''
                                       @ Duration_String (time_Since now (GetCreationTimestamp obj))
                                       @ '', ttl: '' @ Duration_String ttl @ '')'')
                         else (False, [])))))"

subsection \<open>internal/janitor: the worker\<close>

record GroupVersionResource =
  Group :: string
  Version :: string
  Resource :: string

record WorkItem =
  itemResource :: GroupVersionResource
  Namespace :: string
  Name :: string
  Obj :: Object

record ObjectReference =
  APIVersion :: string
  Kind :: string
  refNamespace :: string
  refName :: string
  UID :: string

text \<open>A call \<open>EventRecorder.Event(ref, eventtype, reason, message)\<close>.\<close>

record Event =
  regarding :: ObjectReference
  eventtype :: string
  reason :: string
  message :: string

text \<open>
  What the program has done to the outside world so far: the \<open>Delete\<close> calls issued
  on the dynamic client (resource, namespace, name; an empty namespace is a
  cluster-scoped call), the events recorded, and the increments of the three counters
  \<open>ResourcesDeleted\<close>, \<open>ResourcesEvaluated\<close> and \<open>Errors\<close>, each by its label
  values. Log lines are not modelled.
\<close>

record World =
  deleteCalls :: "(GroupVersionResource \<times> string \<times> string) list"
  events :: "Event list"
  resourcesDeleted :: "(string \<times> string \<times> string) list"
  resourcesEvaluated :: "(string \<times> string) list"
  errorsTotal :: "string list"

definition objectRef :: "WorkItem \<Rightarrow> ObjectReference" where
  "objectRef item =
     \<lparr> APIVersion = Group (itemResource item) @ ''/'' @ Version (itemResource item),
       Kind = objKind (Obj item),
       refNamespace = Namespace item,
       refName = Name item,
       UID = objUID (Obj item) \<rparr>"

text \<open>
  \<open>processItem\<close>. The argument \<open>del\<close> is the platform's answer to a \<open>Delete\<close>
  call: \<open>None\<close> for success, or the error's text.
\<close>

definition processItem ::
  "Duration \<Rightarrow> Time \<Rightarrow> (GroupVersionResource \<Rightarrow> string \<Rightarrow> string \<Rightarrow> string option)
     \<Rightarrow> Janitor \<Rightarrow> WorkItem \<Rightarrow> World \<Rightarrow> World" where
  "processItem ovf now del j item w =
     (case shouldDelete ovf now j (Obj item) of
        (False, why) \<Rightarrow> w
      | (True, why) \<Rightarrow>
          if DryRun (Config j)
          then w\<lparr> events := events w @
                   [\<lparr> regarding = objectRef item, eventtype = ''Normal'',
                      reason = ''DryRunDeletion'',
                      message = ''DRY RUN: Would delete '' @ Resource (itemResource item) @ '' ''
                                  @ Namespace item @ ''/'' @ Name item @ '' - '' @ why \<rparr>] \<rparr>
          else
            (case del (itemResource item) (Namespace item) (Name item) of
               Some err \<Rightarrow>
                 w\<lparr> deleteCalls := deleteCalls w @ [(itemResource item, Namespace item, Name item)],
                    errorsTotal := errorsTotal w @ [''delete_resource''],
                    events := events w @
                      [\<lparr> regarding = objectRef item, eventtype = ''Warning'',
                         reason = ''DeletionFailed'',
                         message = ''Failed to delete '' @ Resource (itemResource item) @ '' ''
                                     @ Namespace item @ ''/'' @ Name item @ '': '' @ err \<rparr>] \<rparr>
             | None \<Rightarrow>
                 w\<lparr> deleteCalls := deleteCalls w @ [(itemResource item, Namespace item, Name item)],
                    resourcesDeleted := resourcesDeleted w @
                      [(Resource (itemResource item), Namespace item, why)],
                    events := events w @
                      [\<lparr> regarding = objectRef item, eventtype = ''Normal'',
                         reason = ''ResourceDeleted'',
                         message = ''Deleted '' @ Resource (itemResource item) @ '' ''
                                     @ Namespace item @ ''/'' @ Name item @ '' - '' @ why \<rparr>] \<rparr>))"

text \<open>
  \<open>processResources\<close>, the producer: \<open>listed\<close> is the platform's answer to the
  \<open>List\<close> call. For every object the counter \<open>ResourcesEvaluated\<close> is incremented and
  a work item is sent to the queue. The function returns the error of the \<open>List\<close> call,
  if any.
\<close>

fun enqueueItems ::
  "GroupVersionResource \<Rightarrow> string \<Rightarrow> Object list \<Rightarrow> World \<times> WorkItem list
     \<Rightarrow> World \<times> WorkItem list" where
  "enqueueItems gvr namespace [] (w, queue) = (w, queue)"
| "enqueueItems gvr namespace (obj # objs) (w, queue) =
     enqueueItems gvr namespace objs
       (w\<lparr> resourcesEvaluated := resourcesEvaluated w @ [(Resource gvr, namespace)] \<rparr>,
        queue @ [\<lparr> itemResource = gvr, Namespace = namespace, Name = objName obj, Obj = obj \<rparr>])"

definition processResources ::
  "string + Object list \<Rightarrow> GroupVersionResource \<Rightarrow> string \<Rightarrow> World \<times> WorkItem list
     \<Rightarrow> string option \<times> World \<times> WorkItem list" where
  "processResources listed gvr namespace wq =
     (case listed of
        Inl err \<Rightarrow> (Some err, wq)
      | Inr items \<Rightarrow> (None, enqueueItems gvr namespace items wq))"


subsection \<open>Example inputs\<close>

text \<open>
  Concrete inputs on which the theorems below are instantiated: a janitor without rules,
  the same janitor in dry-run mode, a pod with a given creation timestamp and
  annotations, the clock at noon of 1 January 2025 (UTC), a work item for a pod whose
  TTL of \<open>0s\<close> has expired, a world in which nothing has happened yet, and a platform
  on which every \<open>Delete\<close> call succeeds.
\<close>

definition exampleJanitor :: Janitor where
  "exampleJanitor =
     \<lparr> Config = \<lparr> DryRun = False, Interval = 30000000000, Once = False,
                   IncludeResources = [], ExcludeResources = [], IncludeNamespaces = [],
                   ExcludeNamespaces = [], RulesFile = [], MaxWorkers = 10 \<rparr>,
       RuleEngine = None,
       ResourceFilter = NewResourceFilter [] [] [] [] \<rparr>"

definition examplePod :: "string \<Rightarrow> (string \<rightharpoonup> string) \<Rightarrow> Object" where
  "examplePod created ann =
     \<lparr> objKind = ''Pod'', objName = ''expired-pod'', objUID = ''uid-1'',
       creationTimestamp = created, annotations = ann, content = GoNil \<rparr>"

definition exampleNow :: Time where
  "exampleNow = time_Date 2025 1 1 12 0 0 0"








definition readmeRule :: Rule where
  "readmeRule =
     \<lparr> ID = ''require-app-label'', Resources = [''deployments'', ''statefulsets''],
       Expression = ''!has(object.spec.template.metadata.labels.app)'', TTL = ''7d'' \<rparr>"

section \<open>Evaluation of the model on concrete inputs\<close>

text \<open>
  The simplifier evaluates the model on a concrete input from these equations.
\<close>

lemmas durationEval =
  time_ParseDuration_def parseDurationLoop.simps parseDurationTerm_def scaleByUnit_def
  fractionNanos_def fractionPart_def isUnitChar_def f64_trunc_def f64_div_def f64_mul_def
  f64_of_nat_def nearestFloat64_def scaledRatio_def roundHalfEven_def bitlen.simps unitMap_def
  isDigit_def digitVal_def wrap64_def
  ParseExtendedDuration_def parseExtendedDuration_def consumed_def removeSpaces_def
  unitDuration_def toDuration_def strconv_ParseFloat_def natOfDigits_def
  regexp_FindAllStringSubmatch.simps matchDurationToken_def matchNumber_def durationUnits_def
  isSpace_def time_Hour_def time_Minute_def time_Second_def time_Millisecond_def
  time_Microsecond_def time_Nanosecond_def

lemmas timeEval =
  time_Parse_def layoutChunks_def parseZone_def parseSecondFraction_def
  parseNanoseconds_def commaOrPeriod_def getnum_def time_RFC3339_def time_Date_def
  daysIn_def isLeap_def natOfDigits_def isDigit_def digitVal_def
  GetCreationTimestamp_def time_Since_def time_Sub_def time_After_def instant_def
  daysSinceZero_def daysBefore_def maxDuration_def minDuration_def zeroTime_def
  parseExpirationTime_def formats_def

lemmas formatEval =
  Duration_String_def formatUnsigned_def fmtFrac_def fmtInt.simps fmtFracDigits.simps
  digitChar_def time_Second_def time_Millisecond_def time_Microsecond_def time_Nanosecond_def

section \<open>Facts about the example inputs\<close>

lemma examplePod_fields:
  "annotations (examplePod created ann) = ann"
  "creationTimestamp (examplePod created ann) = created"
  "objKind (examplePod created ann) = ''Pod''"
  by (simp_all add: examplePod_def)

lemma annotation_names_differ: "annotationTTL \<noteq> annotationExpires"
  by (simp add: annotationTTL_def annotationExpires_def)

lemma ParseExtendedDuration_1h: "ParseExtendedDuration ovf ''1h'' = Inr 3600000000000"
  by (simp add: durationEval)

lemma ParseExtendedDuration_0s: "ParseExtendedDuration ovf ''0s'' = Inr 0"
  by (simp add: durationEval)

lemma ParseExtendedDuration_invalid:
  "ParseExtendedDuration ovf ''invalid'' = Inl (InvalidDurationFormat ''invalid'')"
  by (simp add: durationEval)

lemma ParseExtendedDuration_max:
  "ParseExtendedDuration ovf ''9223372036854775807ns'' = Inr 9223372036854775807"
  by (simp add: durationEval)

lemma age_created_10:
  "time_Since exampleNow (GetCreationTimestamp (examplePod ''2025-01-01T10:00:00Z'' ann)) = 7200000000000"
  by (simp add: examplePod_def exampleNow_def timeEval)

lemma age_created_11:
  "time_Since exampleNow (GetCreationTimestamp (examplePod ''2025-01-01T11:00:00Z'' ann)) = 3600000000000"
  by (simp add: examplePod_def exampleNow_def timeEval)

lemma age_no_timestamp:
  "time_Since exampleNow (GetCreationTimestamp (examplePod [] ann)) = 9223372036854775807"
  by (simp add: examplePod_def exampleNow_def timeEval)

lemma instant_exampleNow: "instant exampleNow = 63871329600000000000"
  by (simp add: exampleNow_def timeEval)


section \<open>The tests of the repository, on the model\<close>

text \<open>
  The table of \<open>TestParseExtendedDuration\<close>: durations of the native syntax, days,
  weeks and months, with fractions and with spaces, and the inputs that must fail.
\<close>

lemma test_ParseExtendedDuration_native:
  "ParseExtendedDuration ovf ''24h'' = Inr (int (24 * time_Hour))"
  "ParseExtendedDuration ovf ''30m'' = Inr (int (30 * time_Minute))"
  "ParseExtendedDuration ovf ''1h30m'' = Inr (int (90 * time_Minute))"
  "ParseExtendedDuration ovf ''1ms'' = Inr (int time_Millisecond)"
  "ParseExtendedDuration ovf (''100'' @ [CHR 0xC2, CHR 0xB5] @ ''s'')
     = Inr (int (100 * time_Microsecond))"
  "ParseExtendedDuration ovf ''100us'' = Inr (int (100 * time_Microsecond))"
  by (simp_all add: durationEval)

lemma test_ParseExtendedDuration_days_weeks:
  "ParseExtendedDuration ovf ''1d'' = Inr (int (24 * time_Hour))"
  "ParseExtendedDuration ovf ''7d'' = Inr (int (7 * 24 * time_Hour))"
  "ParseExtendedDuration ovf ''1.5d'' = Inr (int (36 * time_Hour))"
  "ParseExtendedDuration ovf ''1w'' = Inr (int (7 * 24 * time_Hour))"
  "ParseExtendedDuration ovf ''2w'' = Inr (int (14 * 24 * time_Hour))"
  "ParseExtendedDuration ovf ''0.5w'' = Inr (int (84 * time_Hour))"
  "ParseExtendedDuration ovf ''0d'' = Inr 0"
  by (simp_all add: durationEval)

lemma test_ParseExtendedDuration_months_combined:
  "ParseExtendedDuration ovf ''1month'' = Inr (int (30 * 24 * time_Hour))"
  "ParseExtendedDuration ovf ''1months'' = Inr (int (30 * 24 * time_Hour))"
  "ParseExtendedDuration ovf ''3months'' = Inr (int (90 * 24 * time_Hour))"
  "ParseExtendedDuration ovf ''2w3d'' = Inr (int (17 * 24 * time_Hour))"
  "ParseExtendedDuration ovf ''1month1w2d'' = Inr (int (39 * 24 * time_Hour))"
  "ParseExtendedDuration ovf ''2w 3d 12h'' = Inr (int (17 * 24 * time_Hour + 12 * time_Hour))"
  by (simp_all add: durationEval)

lemma test_ParseExtendedDuration_errors:
  "ParseExtendedDuration ovf ''5x'' = Inl (InvalidDurationFormat ''5x'')"
  "ParseExtendedDuration ovf ''abcd'' = Inl (InvalidDurationFormat ''abcd'')"
  by (simp_all add: durationEval)

text \<open>
  Three inputs that the tests do not cover. Only the space character is removed before
  the comparison of the input with the consumed text, so a tab between two tokens
  rejects the input. In the alternation of the regular expression \<open>m\<close> stands before
  \<open>ms\<close>, so \<open>5ms\<close> behind a day is read as the token \<open>5m\<close> and the input is
  rejected. And 300000 days exceed the range of \<open>int64\<close>: the result is what the
  implementation makes of the conversion.
\<close>

lemma ParseExtendedDuration_further_inputs:
  "ParseExtendedDuration ovf (''2w'' @ [CHR 0x09] @ ''3d'')
     = Inl (InvalidDurationFormat (''2w'' @ [CHR 0x09] @ ''3d''))"
  "ParseExtendedDuration ovf ''1d5ms'' = Inl (InvalidDurationFormat ''1d5ms'')"
  "ParseExtendedDuration ovf ''300000d'' = Inr (wrap64 ovf)"
  by (simp_all add: durationEval)

text \<open>The table of \<open>TestParseExpirationTime\<close>.\<close>

lemma test_parseExpirationTime:
  "parseExpirationTime ''2024-12-31T23:59:59Z'' = Inr (time_Date 2024 12 31 23 59 59 0)"
  "parseExpirationTime ''2024-12-31T23:59:59'' = Inr (time_Date 2024 12 31 23 59 59 0)"
  "parseExpirationTime ''2024-12-31T23:59'' = Inr (time_Date 2024 12 31 23 59 0 0)"
  "parseExpirationTime ''2024-12-31'' = Inr (time_Date 2024 12 31 0 0 0 0)"
  "parseExpirationTime ''invalid-date'' = Inl (UnableToParseExpiration ''invalid-date'')"
  by (simp_all add: timeEval)

text \<open>
  The rule IDs of \<open>TestNewRulesEngine\<close> and the table of \<open>TestResourceMatches\<close>.
\<close>

lemma test_rule_ids:
  "\<not> idRegex_MatchString ''Test-Rule''" "idRegex_MatchString ''test-rule''"
  by (simp_all add: idRegex_MatchString_def isLower_def isDigit_def)

lemma test_resourceMatches:
  "resourceMatches [''*''] ''Pod''" "resourceMatches [''Pod''] ''Pod''"
  "resourceMatches [''pods''] ''Pod''" "\<not> resourceMatches [''deployments''] ''Pod''"
  "resourceMatches [''services'', ''pods'', ''deployments''] ''Pod''"
  by (simp_all add: pluralize_def)

text \<open>
  Cases of \<open>TestShouldDelete\<close> with the clock at noon of 1 January 2025: an expired
  TTL, an expiration time that has been reached, and an object without annotations.
\<close>

lemma test_shouldDelete:
  "shouldDelete ovf exampleNow exampleJanitor
     (examplePod ''2025-01-01T10:00:00Z'' [annotationTTL \<mapsto> ''1h''])
     = (True, ''TTL expired (age: 2h0m0s, ttl: 1h0m0s)'')"
  "shouldDelete ovf exampleNow exampleJanitor
     (examplePod [] [annotationExpires \<mapsto> ''2024-12-31T23:59:59Z''])
     = (True, ''Expiration time reached (2024-12-31T23:59:59Z)'')"
  "shouldDelete ovf exampleNow exampleJanitor (examplePod ''2025-01-01T10:00:00Z'' Map.empty)
     = (False, [])"
proof -
  have f: "Duration_String 7200000000000 = ''2h0m0s''" "Duration_String 3600000000000 = ''1h0m0s''"
    by (simp_all add: formatEval)
  show "shouldDelete ovf exampleNow exampleJanitor
     (examplePod ''2025-01-01T10:00:00Z'' [annotationTTL \<mapsto> ''1h''])
     = (True, ''TTL expired (age: 2h0m0s, ttl: 1h0m0s)'')"
    by (simp add: shouldDelete_def examplePod_fields ParseExtendedDuration_1h age_created_10 f)
  have e: "parseExpirationTime ''2024-12-31T23:59:59Z'' = Inr (time_Date 2024 12 31 23 59 59 0)"
    by (rule test_parseExpirationTime)
  have a: "time_After exampleNow (time_Date 2024 12 31 23 59 59 0)"
    by (simp add: exampleNow_def timeEval)
  show "shouldDelete ovf exampleNow exampleJanitor
     (examplePod [] [annotationExpires \<mapsto> ''2024-12-31T23:59:59Z''])
     = (True, ''Expiration time reached (2024-12-31T23:59:59Z)'')"
    using annotation_names_differ by (simp add: shouldDelete_def examplePod_fields e a)
  show "shouldDelete ovf exampleNow exampleJanitor (examplePod ''2025-01-01T10:00:00Z'' Map.empty)
     = (False, [])"
    by (simp add: shouldDelete_def examplePod_fields exampleJanitor_def)
qed

section \<open>The TTL annotation (claim C1)\<close>

text \<open>
  Claim C1. For every object that carries a \<open>janitor/ttl\<close> annotation: when the
  annotation parses to a duration \<open>d\<close>, \<open>shouldDelete\<close> answers delete exactly when
  the age \<open>now - creationTimestamp\<close> is strictly greater than \<open>d\<close>, so at an age equal
  to the TTL the object is kept; with the TTL \<open>0s\<close> every positive age deletes; and when
  the annotation does not parse the answer is keep, with an empty reason and no error.
\<close>

theorem shouldDelete_ttl_annotation:
  assumes "annotations obj annotationTTL = Some ttl"
  shows
    "(\<forall>d. ParseExtendedDuration ovf ttl = Inr d \<longrightarrow>
        (fst (shouldDelete ovf now j obj) \<longleftrightarrow> time_Since now (GetCreationTimestamp obj) > d)) \<and>
     (\<forall>d. ParseExtendedDuration ovf ttl = Inr d \<longrightarrow>
        time_Since now (GetCreationTimestamp obj) = d \<longrightarrow> shouldDelete ovf now j obj = (False, [])) \<and>
     (ttl = ''0s'' \<longrightarrow> time_Since now (GetCreationTimestamp obj) > 0 \<longrightarrow>
        fst (shouldDelete ovf now j obj)) \<and>
     (\<forall>e. ParseExtendedDuration ovf ttl = Inl e \<longrightarrow> shouldDelete ovf now j obj = (False, []))"
proof -
  have iff: "fst (shouldDelete ovf now j obj) \<longleftrightarrow> time_Since now (GetCreationTimestamp obj) > d"
    if "ParseExtendedDuration ovf ttl = Inr d" for d
    using assms that by (simp add: shouldDelete_def)
  have keep: "shouldDelete ovf now j obj = (False, [])"
    if "ParseExtendedDuration ovf ttl = Inr d" "time_Since now (GetCreationTimestamp obj) = d" for d
    using assms that by (simp add: shouldDelete_def)
  have zero: "fst (shouldDelete ovf now j obj)"
    if "ttl = ''0s''" "time_Since now (GetCreationTimestamp obj) > 0"
    using iff [of 0] that ParseExtendedDuration_0s [of ovf] by simp
  have bad: "shouldDelete ovf now j obj = (False, [])"
    if "ParseExtendedDuration ovf ttl = Inl e" for e
    using assms that by (simp add: shouldDelete_def)
  from iff keep zero bad show ?thesis by blast
qed

text \<open>
  The witness: at noon, a pod created at 10:00 with a TTL of \<open>1h\<close> is two hours old and
  is deleted; a pod created at 11:00 with the same TTL is exactly as old as its TTL and
  is kept; with the TTL \<open>0s\<close> it is deleted; and a pod whose TTL is \<open>invalid\<close> is kept.
\<close>

theorem shouldDelete_ttl_annotation_witness:
  "annotations (examplePod ''2025-01-01T10:00:00Z'' [annotationTTL \<mapsto> ''1h'']) annotationTTL
     = Some ''1h'' \<and>
   ParseExtendedDuration (- (2 ^ 63)) ''1h'' = Inr 3600000000000 \<and>
   time_Since exampleNow
     (GetCreationTimestamp (examplePod ''2025-01-01T10:00:00Z'' [annotationTTL \<mapsto> ''1h'']))
     = 7200000000000 \<and>
   fst (shouldDelete (- (2 ^ 63)) exampleNow exampleJanitor
         (examplePod ''2025-01-01T10:00:00Z'' [annotationTTL \<mapsto> ''1h''])) \<and>
   shouldDelete (- (2 ^ 63)) exampleNow exampleJanitor
         (examplePod ''2025-01-01T11:00:00Z'' [annotationTTL \<mapsto> ''1h'']) = (False, []) \<and>
   fst (shouldDelete (- (2 ^ 63)) exampleNow exampleJanitor
         (examplePod ''2025-01-01T11:00:00Z'' [annotationTTL \<mapsto> ''0s''])) \<and>
   shouldDelete (- (2 ^ 63)) exampleNow exampleJanitor
         (examplePod ''2025-01-01T10:00:00Z'' [annotationTTL \<mapsto> ''invalid'']) = (False, [])"
proof -
  have a: "annotations (examplePod c [annotationTTL \<mapsto> t]) annotationTTL = Some t" for c t
    by (simp add: examplePod_def)
  note t1 = shouldDelete_ttl_annotation [OF a, of "- (2 ^ 63)" "''1h''" exampleNow exampleJanitor
      "''2025-01-01T10:00:00Z''"]
  note t2 = shouldDelete_ttl_annotation [OF a, of "- (2 ^ 63)" "''1h''" exampleNow exampleJanitor
      "''2025-01-01T11:00:00Z''"]
  note t3 = shouldDelete_ttl_annotation [OF a, of "- (2 ^ 63)" "''0s''" exampleNow exampleJanitor
      "''2025-01-01T11:00:00Z''"]
  note t4 = shouldDelete_ttl_annotation [OF a, of "- (2 ^ 63)" "''invalid''" exampleNow exampleJanitor
      "''2025-01-01T10:00:00Z''"]
  have c1: "fst (shouldDelete (- (2 ^ 63)) exampleNow exampleJanitor
         (examplePod ''2025-01-01T10:00:00Z'' [annotationTTL \<mapsto> ''1h'']))"
    using t1 ParseExtendedDuration_1h [of "- (2 ^ 63)"] age_created_10 by simp
  have c2: "shouldDelete (- (2 ^ 63)) exampleNow exampleJanitor
         (examplePod ''2025-01-01T11:00:00Z'' [annotationTTL \<mapsto> ''1h'']) = (False, [])"
    using t2 ParseExtendedDuration_1h [of "- (2 ^ 63)"] age_created_11 by simp
  have c3: "fst (shouldDelete (- (2 ^ 63)) exampleNow exampleJanitor
         (examplePod ''2025-01-01T11:00:00Z'' [annotationTTL \<mapsto> ''0s'']))"
    using t3 age_created_11 by simp
  have c4: "shouldDelete (- (2 ^ 63)) exampleNow exampleJanitor
         (examplePod ''2025-01-01T10:00:00Z'' [annotationTTL \<mapsto> ''invalid'']) = (False, [])"
    using t4 ParseExtendedDuration_invalid [of "- (2 ^ 63)"] by simp
  from a c1 c2 c3 c4 ParseExtendedDuration_1h [of "- (2 ^ 63)"] age_created_10
  show ?thesis by simp
qed

section \<open>Dry-run mode (claim C2)\<close>





lemma processItem_live_delete:
  assumes "\<not> DryRun (Config j)" and "shouldDelete ovf now j (Obj item) = (True, why)"
  shows "deleteCalls (processItem ovf now del j item w)
           = deleteCalls w @ [(itemResource item, Namespace item, Name item)]"
  using assms by (simp add: processItem_def split: option.splits)




section \<open>Precedence of the TTL annotation (claim C3)\<close>

text \<open>
  Claim C3. For an object whose \<open>janitor/ttl\<close> annotation is present, whether it
  parses or not, the \<open>janitor/expires\<close> annotation has no effect on the decision:
  setting it to any value, or removing it, leaves the pair of the verdict and the reason
  that \<open>shouldDelete\<close> returns (at the same reading of the clock) unchanged.
\<close>

theorem expires_ignored_when_ttl_present:
  assumes "annotations obj annotationTTL = Some ttl"
  shows "shouldDelete ovf now j (obj\<lparr> annotations := (annotations obj)(annotationExpires := x) \<rparr>)
           = shouldDelete ovf now j obj"
proof -
  have "GetCreationTimestamp (obj\<lparr> annotations := (annotations obj)(annotationExpires := x) \<rparr>)
          = GetCreationTimestamp obj"
    by (simp add: GetCreationTimestamp_def)
  with assms annotation_names_differ show ?thesis
    by (simp add: shouldDelete_def split: sum.splits)
qed

text \<open>
  The witness: a pod with a TTL of \<open>1h\<close>, half an hour old, with and without an
  expiration date that has long passed.
\<close>

theorem expires_ignored_when_ttl_present_witness:
  "annotations (examplePod ''2025-01-01T11:30:00Z'' [annotationTTL \<mapsto> ''1h'']) annotationTTL
     = Some ''1h'' \<and>
   shouldDelete (- (2 ^ 63)) exampleNow exampleJanitor
     ((examplePod ''2025-01-01T11:30:00Z'' [annotationTTL \<mapsto> ''1h''])
        \<lparr> annotations := (annotations (examplePod ''2025-01-01T11:30:00Z'' [annotationTTL \<mapsto> ''1h'']))
             (annotationExpires := Some ''2020-01-01'') \<rparr>)
     = shouldDelete (- (2 ^ 63)) exampleNow exampleJanitor
         (examplePod ''2025-01-01T11:30:00Z'' [annotationTTL \<mapsto> ''1h''])"
proof -
  have a: "annotations (examplePod ''2025-01-01T11:30:00Z'' [annotationTTL \<mapsto> ''1h'']) annotationTTL
     = Some ''1h''"
    by (simp add: examplePod_def)
  from a expires_ignored_when_ttl_present [OF a] show ?thesis by simp
qed

section \<open>The extended duration parser (claim C4)\<close>

lemma tokens_1month2w3d12h30m:
  "regexp_FindAllStringSubmatch ''1month2w3d12h30m'' =
   [(''1month'', ''1'', ''month''), (''2w'', ''2'', ''w''), (''3d'', ''3'', ''d''),
    (''12h'', ''12'', ''h''), (''30m'', ''30'', ''m'')]"
  by (simp add: durationEval)

lemma tokens_2w3x: "regexp_FindAllStringSubmatch ''2w3x'' = [(''2w'', ''2'', ''w'')]"
  by (simp add: durationEval)

lemma sum_2w3x: "sumTokens ovf 0 [(''2w'', ''2'', ''w'')] = Inr 1209600000000000"
  by (simp add: durationEval)

lemma native_rejects_2w3x: "time_ParseDuration ''2w3x'' = None"
  by (simp add: durationEval)

lemma ped_complex: "ParseExtendedDuration ovf ''1month2w3d12h30m'' = Inr 4105800000000000"
  by (simp add: durationEval)

lemma ped_2w3x: "ParseExtendedDuration ovf ''2w3x'' = Inl (InvalidDurationFormat ''2w3x'')"
  by (simp add: durationEval)

lemma ped_empty: "ParseExtendedDuration ovf [] = Inl (InvalidDurationFormat [])"
  by (simp add: durationEval)

lemma completeness_check:
  assumes "time_ParseDuration s = None"
    and "removeSpaces s \<noteq> removeSpaces (consumed (regexp_FindAllStringSubmatch s))"
  shows "\<exists>e. ParseExtendedDuration ovf s = Inl e"
  using assms by (auto simp: ParseExtendedDuration_def split: sum.splits)

text \<open>
  Claim C4. \<open>ParseExtendedDuration\<close> accepts \<open>1month2w3d12h30m\<close> and returns
  exactly 47 days, 12 hours and 30 minutes; it rejects \<open>2w3x\<close>, \<open>invalid\<close> and the
  empty string with an error; and whenever the native parser fails and the input differs
  from the concatenation of the matched tokens after the spaces of both are removed,
  the input is rejected: that check is what rejects an input that matches in part only.
\<close>

theorem ParseExtendedDuration_examples_and_completeness:
  "ParseExtendedDuration ovf ''1month2w3d12h30m''
     = Inr (int (47 * 24 * time_Hour + 12 * time_Hour + 30 * time_Minute)) \<and>
   ParseExtendedDuration ovf ''2w3x'' = Inl (InvalidDurationFormat ''2w3x'') \<and>
   ParseExtendedDuration ovf ''invalid'' = Inl (InvalidDurationFormat ''invalid'') \<and>
   ParseExtendedDuration ovf [] = Inl (InvalidDurationFormat []) \<and>
   (\<forall>s. time_ParseDuration s = None \<longrightarrow>
        removeSpaces s \<noteq> removeSpaces (consumed (regexp_FindAllStringSubmatch s)) \<longrightarrow>
        (\<exists>e. ParseExtendedDuration ovf s = Inl e))"
proof -
  have "int (47 * 24 * time_Hour + 12 * time_Hour + 30 * time_Minute) = 4105800000000000"
    by (simp add: time_Hour_def time_Minute_def time_Second_def time_Millisecond_def
        time_Microsecond_def time_Nanosecond_def)
  with ped_complex [of ovf] ped_2w3x [of ovf] ParseExtendedDuration_invalid [of ovf]
    ped_empty [of ovf] completeness_check [of _ ovf]
  show ?thesis by simp
qed

text \<open>
  The witness: \<open>2w3x\<close> is rejected by the native parser; the regular expression finds
  the one token \<open>2w\<close>, whose duration is computed without error; the consumed text
  \<open>2w\<close> differs from the input, and the input is rejected.
\<close>

theorem ParseExtendedDuration_examples_and_completeness_witness:
  "time_ParseDuration ''2w3x'' = None \<and>
   regexp_FindAllStringSubmatch ''2w3x'' = [(''2w'', ''2'', ''w'')] \<and>
   sumTokens (- (2 ^ 63)) 0 (regexp_FindAllStringSubmatch ''2w3x'') = Inr 1209600000000000 \<and>
   removeSpaces ''2w3x'' \<noteq> removeSpaces (consumed (regexp_FindAllStringSubmatch ''2w3x'')) \<and>
   (\<exists>e. ParseExtendedDuration (- (2 ^ 63)) ''2w3x'' = Inl e)"
proof -
  have ne: "removeSpaces ''2w3x'' \<noteq> removeSpaces (consumed (regexp_FindAllStringSubmatch ''2w3x''))"
    by (simp add: tokens_2w3x consumed_def removeSpaces_def)
  from ParseExtendedDuration_examples_and_completeness [of "- (2 ^ 63)"]
  have "\<forall>s. time_ParseDuration s = None \<longrightarrow>
        removeSpaces s \<noteq> removeSpaces (consumed (regexp_FindAllStringSubmatch s)) \<longrightarrow>
        (\<exists>e. ParseExtendedDuration (- (2 ^ 63)) s = Inl e)"
    by blast
  with native_rejects_2w3x ne have "\<exists>e. ParseExtendedDuration (- (2 ^ 63)) ''2w3x'' = Inl e"
    by blast
  with native_rejects_2w3x ne tokens_2w3x sum_2w3x [of "- (2 ^ 63)"] show ?thesis
    by simp
qed

section \<open>Rule evaluation (claim C5)\<close>










section \<open>Loading rules (claim C6)\<close>

text \<open>
  \<open>New\<close> is all or nothing. When every rule compiles, the engine holds the compiled
  rules, one for each rule and in the same order. When some rule does not compile (its
  ID does not match, its TTL is rejected by the extended duration parser, or its
  expression does not compile to a program), \<open>New\<close> returns the error of the first
  such rule, which names that rule, and no engine.
\<close>

lemma compileRule_Inr_iff:
  "compileRule env ovf r = Inr cr \<longleftrightarrow>
     idRegex_MatchString (ID r) \<and>
     (\<exists>ttl ast prog. parseExtendedDuration ovf (TTL r) = Inr ttl \<and>
        Compile env (Expression r) = Inr ast \<and> Program env ast = Inr prog \<and>
        cr = \<lparr> rule = r, program = prog, ttlDuration = ttl \<rparr>)"
  by (auto simp: compileRule_def split: sum.splits)

lemma compileRule_error_names_rule:
  "compileRule env ovf r = Inl err \<Longrightarrow> errorRuleID err = Some (ID r)"
  by (auto simp: compileRule_def split: sum.splits if_splits)

lemma compileRules_all_ok:
  "list_all2 (\<lambda>r cr. compileRule env ovf r = Inr cr) rs crs \<Longrightarrow>
   compileRules env ovf acc rs = Inr \<lparr> rules = acc @ crs \<rparr>"
proof (induction rs arbitrary: acc crs)
  case Nil
  then show ?case by simp
next
  case (Cons r rs)
  then obtain cr crs' where crs: "crs = cr # crs'" and c: "compileRule env ovf r = Inr cr"
    and rest: "list_all2 (\<lambda>r cr. compileRule env ovf r = Inr cr) rs crs'"
    by (auto simp: list_all2_Cons1)
  from Cons.IH [OF rest, of "acc @ [cr]"] c crs show ?case by simp
qed

lemma compileRules_first_error:
  "i < length rs \<Longrightarrow> compileRule env ovf (rs ! i) = Inl err \<Longrightarrow>
   (\<forall>k<i. \<exists>cr. compileRule env ovf (rs ! k) = Inr cr) \<Longrightarrow>
   compileRules env ovf acc rs = Inl err"
proof (induction rs arbitrary: i acc)
  case Nil
  then show ?case by simp
next
  case (Cons r rs)
  show ?case
  proof (cases i)
    case 0
    with Cons.prems show ?thesis by simp
  next
    case (Suc n)
    with Cons.prems obtain cr where c: "compileRule env ovf r = Inr cr" by fastforce
    from Suc Cons.prems have "n < length rs" "compileRule env ovf (rs ! n) = Inl err"
      "\<forall>k<n. \<exists>cr. compileRule env ovf (rs ! k) = Inr cr" by auto
    from Cons.IH [OF this, of "acc @ [cr]"] c show ?thesis by simp
  qed
qed

lemma compileRules_some_error:
  "\<exists>r \<in> set rs. \<exists>err. compileRule env ovf r = Inl err \<Longrightarrow>
   \<exists>i err. i < length rs \<and> compileRule env ovf (rs ! i) = Inl err \<and>
     (\<forall>k<i. \<exists>cr. compileRule env ovf (rs ! k) = Inr cr) \<and>
     compileRules env ovf acc rs = Inl err"
proof (induction rs arbitrary: acc)
  case Nil
  then show ?case by simp
next
  case (Cons r rs)
  show ?case
  proof (cases "compileRule env ovf r")
    case (Inl err)
    then have "0 < length (r # rs) \<and> compileRule env ovf ((r # rs) ! 0) = Inl err \<and>
      (\<forall>k<0. \<exists>cr. compileRule env ovf ((r # rs) ! k) = Inr cr) \<and>
      compileRules env ovf acc (r # rs) = Inl err" by simp
    then show ?thesis by blast
  next
    case (Inr cr)
    with Cons.prems have "\<exists>r \<in> set rs. \<exists>err. compileRule env ovf r = Inl err" by auto
    from Cons.IH [OF this, of "acc @ [cr]"] obtain i err where
      i: "i < length rs" "compileRule env ovf (rs ! i) = Inl err"
      "\<forall>k<i. \<exists>cr. compileRule env ovf (rs ! k) = Inr cr"
      "compileRules env ovf (acc @ [cr]) rs = Inl err" by blast
    have "\<forall>k<Suc i. \<exists>cr. compileRule env ovf ((r # rs) ! k) = Inr cr"
    proof (intro allI impI)
      fix k assume "k < Suc i"
      then show "\<exists>cr. compileRule env ovf ((r # rs) ! k) = Inr cr"
        using Inr i(3) by (cases k) auto
    qed
    with i Inr have "Suc i < length (r # rs) \<and> compileRule env ovf ((r # rs) ! Suc i) = Inl err \<and>
      (\<forall>k<Suc i. \<exists>cr. compileRule env ovf ((r # rs) ! k) = Inr cr) \<and>
      compileRules env ovf acc (r # rs) = Inl err" by simp
    then show ?thesis by blast
  qed
qed

lemma New_all_or_nothing:
  "(list_all2 (\<lambda>r cr. compileRule env ovf r = Inr cr) rs crs \<longrightarrow>
      New (Inr env) ovf rs = Inr \<lparr> rules = crs \<rparr>) \<and>
   ((\<exists>r \<in> set rs. \<exists>err. compileRule env ovf r = Inl err) \<longrightarrow>
      (\<exists>i err. i < length rs \<and> compileRule env ovf (rs ! i) = Inl err \<and>
         (\<forall>k<i. \<exists>cr. compileRule env ovf (rs ! k) = Inr cr) \<and>
         New (Inr env) ovf rs = Inl err \<and> errorRuleID err = Some (ID (rs ! i))))"
proof -
  have ok: "New (Inr env) ovf rs = Inr \<lparr> rules = crs \<rparr>"
    if "list_all2 (\<lambda>r cr. compileRule env ovf r = Inr cr) rs crs"
    using compileRules_all_ok [OF that, of "[]"] by (simp add: New_def)
  have bad: "\<exists>i err. i < length rs \<and> compileRule env ovf (rs ! i) = Inl err \<and>
         (\<forall>k<i. \<exists>cr. compileRule env ovf (rs ! k) = Inr cr) \<and>
         New (Inr env) ovf rs = Inl err \<and> errorRuleID err = Some (ID (rs ! i))"
    if "\<exists>r \<in> set rs. \<exists>err. compileRule env ovf r = Inl err"
  proof -
    from compileRules_some_error [OF that, of "[]"] obtain i err where
      i: "i < length rs" "compileRule env ovf (rs ! i) = Inl err"
      "\<forall>k<i. \<exists>cr. compileRule env ovf (rs ! k) = Inr cr"
      "compileRules env ovf [] rs = Inl err" by blast
    from i(2) have "errorRuleID err = Some (ID (rs ! i))"
      by (rule compileRule_error_names_rule)
    with i show ?thesis unfolding New_def by auto
  qed
  from ok bad show ?thesis by blast
qed


lemma extended_accepts_7d: "parseExtendedDuration ovf ''7d'' = Inr 604800000000000"
  by (simp add: durationEval)

lemma readmeRule_id: "idRegex_MatchString (ID readmeRule)"
  by (simp add: readmeRule_def idRegex_MatchString_def isLower_def isDigit_def)

lemma New_accepts_7d:
  "Compile env (Expression readmeRule) = Inr ast \<Longrightarrow> Program env ast = Inr prog \<Longrightarrow>
   New (Inr env) ovf [readmeRule]
     = Inr \<lparr> rules = [\<lparr> rule = readmeRule, program = prog, ttlDuration = 604800000000000 \<rparr>] \<rparr>"
  using readmeRule_id extended_accepts_7d [of ovf]
  by (simp add: New_def compileRule_def) (simp add: readmeRule_def)


section \<open>Kind matching (claim C7)\<close>

lemma resourceMatches_iff:
  "resourceMatches rs kind \<longleftrightarrow> (\<exists>r \<in> set rs. r = ''*'' \<or> r = kind \<or> r = pluralize kind)"
  by (induction rs) auto

lemma pluralize_table_entries:
  "list_all (\<lambda>(k, p). pluralize k = p) pluralTable"
  by (simp add: pluralTable_def pluralize_def)

lemma pluralize_fallback:
  "kind \<notin> fst ` set pluralTable \<Longrightarrow> pluralize kind = kind @ ''s''"
  by (simp add: pluralTable_def pluralize_def)

text \<open>
  Claim C7. \<open>pluralize\<close> maps each of the thirteen kinds of the fixed table to the
  plural the table gives (Pod to pods, ..., Ingress to ingresses, NetworkPolicy to
  networkpolicies); every kind outside the table is returned with \<open>s\<close> appended and
  otherwise unchanged (no change of case); and a rule's resources match a kind exactly
  when one of them is \<open>*\<close>, the kind, or the pluralized kind.
\<close>

theorem pluralize_table_and_fallback:
  "pluralize ''Pod'' = ''pods'' \<and> pluralize ''Service'' = ''services'' \<and>
   pluralize ''Deployment'' = ''deployments'' \<and> pluralize ''StatefulSet'' = ''statefulsets'' \<and>
   pluralize ''DaemonSet'' = ''daemonsets'' \<and> pluralize ''ReplicaSet'' = ''replicasets'' \<and>
   pluralize ''ConfigMap'' = ''configmaps'' \<and> pluralize ''Secret'' = ''secrets'' \<and>
   pluralize ''PersistentVolumeClaim'' = ''persistentvolumeclaims'' \<and>
   pluralize ''PersistentVolume'' = ''persistentvolumes'' \<and>
   pluralize ''Namespace'' = ''namespaces'' \<and> pluralize ''Ingress'' = ''ingresses'' \<and>
   pluralize ''NetworkPolicy'' = ''networkpolicies'' \<and>
   (\<forall>kind. kind \<notin> fst ` set pluralTable \<longrightarrow> pluralize kind = kind @ ''s'') \<and>
   (\<forall>rs kind. resourceMatches rs kind \<longleftrightarrow>
      (\<exists>r \<in> set rs. r = ''*'' \<or> r = kind \<or> r = pluralize kind))"
proof -
  have table: "list_all (\<lambda>(k, p). pluralize k = p) pluralTable"
    by (rule pluralize_table_entries)
  have fallback: "\<forall>kind. kind \<notin> fst ` set pluralTable \<longrightarrow> pluralize kind = kind @ ''s''"
    using pluralize_fallback by blast
  have matching: "\<forall>rs kind. resourceMatches rs kind \<longleftrightarrow>
      (\<exists>r \<in> set rs. r = ''*'' \<or> r = kind \<or> r = pluralize kind)"
    using resourceMatches_iff by blast
  from table have
    "pluralize ''Pod'' = ''pods'' \<and> pluralize ''Service'' = ''services'' \<and>
     pluralize ''Deployment'' = ''deployments'' \<and> pluralize ''StatefulSet'' = ''statefulsets'' \<and>
     pluralize ''DaemonSet'' = ''daemonsets'' \<and> pluralize ''ReplicaSet'' = ''replicasets'' \<and>
     pluralize ''ConfigMap'' = ''configmaps'' \<and> pluralize ''Secret'' = ''secrets'' \<and>
     pluralize ''PersistentVolumeClaim'' = ''persistentvolumeclaims'' \<and>
     pluralize ''PersistentVolume'' = ''persistentvolumes'' \<and>
     pluralize ''Namespace'' = ''namespaces'' \<and> pluralize ''Ingress'' = ''ingresses'' \<and>
     pluralize ''NetworkPolicy'' = ''networkpolicies''"
    unfolding pluralTable_def by simp
  with fallback matching show ?thesis by blast
qed

text \<open>
  The witness: \<open>CustomResource\<close> has no entry in the table, so it is pluralized to
  \<open>CustomResources\<close>, capitals kept; and a rule for \<open>pods\<close> matches the kind \<open>Pod\<close>
  while a rule for \<open>customresources\<close> does not match \<open>CustomResource\<close>.
\<close>

theorem pluralize_table_and_fallback_witness:
  "''CustomResource'' \<notin> fst ` set pluralTable \<and>
   pluralize ''CustomResource'' = ''CustomResources'' \<and>
   resourceMatches [''services'', ''pods''] ''Pod'' \<and>
   \<not> resourceMatches [''customresources''] ''CustomResource''"
proof -
  have out: "''CustomResource'' \<notin> fst ` set pluralTable"
    by (simp add: pluralTable_def)
  from pluralize_table_and_fallback
  have fb: "\<forall>kind. kind \<notin> fst ` set pluralTable \<longrightarrow> pluralize kind = kind @ ''s''"
    and pod: "pluralize ''Pod'' = ''pods''"
    and m: "\<forall>rs kind. resourceMatches rs kind \<longleftrightarrow>
      (\<exists>r \<in> set rs. r = ''*'' \<or> r = kind \<or> r = pluralize kind)"
    by blast+
  from fb out have p: "pluralize ''CustomResource'' = ''CustomResources''" by simp
  from m pod have m1: "resourceMatches [''services'', ''pods''] ''Pod''" by simp
  from m p have m2: "\<not> resourceMatches [''customresources''] ''CustomResource''" by simp
  from out p m1 m2 show ?thesis by blast
qed

section \<open>The resource filter (claim C8)\<close>

lemma storeAll_apply: "storeAll m rs r \<longleftrightarrow> m r \<or> r \<in> set rs"
  by (induction rs arbitrary: m) auto

lemma NewResourceFilter_fields:
  "includeAllResources (NewResourceFilter incR excR incN excN) = (incR = [])"
  "includeAllNamespaces (NewResourceFilter incR excR incN excN) = (incN = [])"
  "excludeResources (NewResourceFilter incR excR incN excN) r = (r \<in> set excR)"
  "excludeNamespaces (NewResourceFilter incR excR incN excN) n = (n \<in> set excN)"
  "includeResources (NewResourceFilter incR excR incN excN) r = (r \<in> set incR)"
  "includeNamespaces (NewResourceFilter incR excR incN excN) n = (n \<in> set incN)"
  by (auto simp: NewResourceFilter_def Let_def storeAll_apply emptyMap_def)

text \<open>
  Claim C8. For the filter built by \<open>NewResourceFilter\<close> from the four sequences, a
  resource name \<open>r\<close> is admitted exactly when it is not among the excluded resources and
  either every resource is included or \<open>r\<close> is among the included ones; "include all"
  holds exactly when the include sequence given to the constructor is empty; the same
  holds for namespaces. The answer is a function of the constructor's arguments and the
  name alone, and an excluded name is rejected also when it is included as well.
\<close>

theorem resource_filter_admit:
  "ShouldProcessResource (NewResourceFilter incR excR incN excN) r =
     (r \<notin> set excR \<and> (includeAllResources (NewResourceFilter incR excR incN excN) \<or> r \<in> set incR)) \<and>
   ShouldProcessNamespace (NewResourceFilter incR excR incN excN) n =
     (n \<notin> set excN \<and> (includeAllNamespaces (NewResourceFilter incR excR incN excN) \<or> n \<in> set incN)) \<and>
   includeAllResources (NewResourceFilter incR excR incN excN) = (incR = []) \<and>
   includeAllNamespaces (NewResourceFilter incR excR incN excN) = (incN = []) \<and>
   (r \<in> set excR \<longrightarrow> \<not> ShouldProcessResource (NewResourceFilter incR excR incN excN) r) \<and>
   (n \<in> set excN \<longrightarrow> \<not> ShouldProcessNamespace (NewResourceFilter incR excR incN excN) n)"
  by (simp add: ShouldProcessResource_def ShouldProcessNamespace_def NewResourceFilter_fields)

text \<open>
  The witness: \<open>pods\<close> is both included and excluded and is rejected; so is the
  namespace \<open>kube-system\<close>.
\<close>

theorem resource_filter_admit_witness:
  "''pods'' \<in> set [''pods''] \<and> ''kube-system'' \<in> set [''kube-system''] \<and>
   \<not> ShouldProcessResource
       (NewResourceFilter [''pods'', ''services''] [''pods''] [''kube-system''] [''kube-system''])
       ''pods'' \<and>
   \<not> ShouldProcessNamespace
       (NewResourceFilter [''pods'', ''services''] [''pods''] [''kube-system''] [''kube-system''])
       ''kube-system''"
  using resource_filter_admit [where r = "''pods''" and incR = "[''pods'', ''services'']"
      and excR = "[''pods'']" and incN = "[''kube-system'']" and excN = "[''kube-system'']"
      and n = "''kube-system''"]
  by simp

section \<open>The expiration annotation (claim C9)\<close>

lemma tryFormats_unfold:
  "parseExpirationTime s =
     (case time_Parse time_RFC3339 s of
        Some t \<Rightarrow> Inr t
      | None \<Rightarrow>
          (case time_Parse ''2006-01-02T15:04:05'' s of
             Some t \<Rightarrow> Inr t
           | None \<Rightarrow>
               (case time_Parse ''2006-01-02T15:04'' s of
                  Some t \<Rightarrow> Inr t
                | None \<Rightarrow>
                    (case time_Parse ''2006-01-02'' s of
                       Some t \<Rightarrow> Inr (time_Date (Year t) (Month t) (Day t) 0 0 0 0)
                     | None \<Rightarrow> Inl (UnableToParseExpiration s)))))"
  by (simp add: parseExpirationTime_def formats_def time_RFC3339_def split: option.splits)

lemma instant_midnight:
  "instant (time_Date y m d 0 0 0 0) = daysSinceZero y m d * 86400 * 1000000000"
  by (simp add: instant_def time_Date_def)

lemma parse_date_only:
  "parseExpirationTime ''2024-12-31'' = Inr (time_Date 2024 12 31 0 0 0 0)"
  by (simp add: timeEval)

text \<open>
  Claim C9. \<open>parseExpirationTime\<close> tries RFC3339, then \<open>2006-01-02T15:04:05\<close>, then
  \<open>2006-01-02T15:04\<close>, then \<open>2006-01-02\<close>; it returns the time of the first layout
  that parses, for the date-only layout the midnight (UTC) that begins that date, and an
  error when none parses. For an object without a TTL annotation whose
  \<open>janitor/expires\<close> annotation parses, \<open>shouldDelete\<close> answers delete exactly when
  the clock is strictly after the expiration time: at the expiration time itself the
  object is kept. An expiration that does not parse keeps the object.
\<close>

theorem parseExpirationTime_order_and_strict_after:
  "parseExpirationTime s =
     (case time_Parse time_RFC3339 s of
        Some t \<Rightarrow> Inr t
      | None \<Rightarrow>
          (case time_Parse ''2006-01-02T15:04:05'' s of
             Some t \<Rightarrow> Inr t
           | None \<Rightarrow>
               (case time_Parse ''2006-01-02T15:04'' s of
                  Some t \<Rightarrow> Inr t
                | None \<Rightarrow>
                    (case time_Parse ''2006-01-02'' s of
                       Some t \<Rightarrow> Inr (time_Date (Year t) (Month t) (Day t) 0 0 0 0)
                     | None \<Rightarrow> Inl (UnableToParseExpiration s))))) \<and>
   instant (time_Date y m d 0 0 0 0) = daysSinceZero y m d * 86400 * 1000000000 \<and>
   (annotations obj annotationTTL = None \<longrightarrow> annotations obj annotationExpires = Some s \<longrightarrow>
      (\<forall>t. parseExpirationTime s = Inr t \<longrightarrow>
         (fst (shouldDelete ovf now j obj) \<longleftrightarrow> instant now > instant t) \<and>
         (instant now = instant t \<longrightarrow> shouldDelete ovf now j obj = (False, []))) \<and>
      (\<forall>e. parseExpirationTime s = Inl e \<longrightarrow> shouldDelete ovf now j obj = (False, [])))"
proof -
  have dec: "(fst (shouldDelete ovf now j obj) \<longleftrightarrow> instant now > instant t) \<and>
         (instant now = instant t \<longrightarrow> shouldDelete ovf now j obj = (False, []))"
    if "annotations obj annotationTTL = None" "annotations obj annotationExpires = Some s"
      "parseExpirationTime s = Inr t" for t
    using that by (simp add: shouldDelete_def time_After_def)
  have bad: "shouldDelete ovf now j obj = (False, [])"
    if "annotations obj annotationTTL = None" "annotations obj annotationExpires = Some s"
      "parseExpirationTime s = Inl e" for e
    using that by (simp add: shouldDelete_def)
  from dec bad tryFormats_unfold [of s] instant_midnight [of y m d] show ?thesis
    by blast
qed

text \<open>
  The witness: a pod that expires on \<open>2024-12-31\<close> is kept at midnight of that day and
  deleted one nanosecond later.
\<close>

theorem parseExpirationTime_order_and_strict_after_witness:
  "annotations (examplePod [] [annotationExpires \<mapsto> ''2024-12-31'']) annotationTTL = None \<and>
   annotations (examplePod [] [annotationExpires \<mapsto> ''2024-12-31'']) annotationExpires
     = Some ''2024-12-31'' \<and>
   parseExpirationTime ''2024-12-31'' = Inr (time_Date 2024 12 31 0 0 0 0) \<and>
   shouldDelete (- (2 ^ 63)) (time_Date 2024 12 31 0 0 0 0) exampleJanitor
     (examplePod [] [annotationExpires \<mapsto> ''2024-12-31'']) = (False, []) \<and>
   fst (shouldDelete (- (2 ^ 63)) (time_Date 2024 12 31 0 0 0 1) exampleJanitor
     (examplePod [] [annotationExpires \<mapsto> ''2024-12-31'']))"
proof -
  have a: "annotations (examplePod [] [annotationExpires \<mapsto> ''2024-12-31'']) annotationTTL = None"
    and b: "annotations (examplePod [] [annotationExpires \<mapsto> ''2024-12-31'']) annotationExpires
     = Some ''2024-12-31''"
    using annotation_names_differ by (simp_all add: examplePod_fields)
  have lt: "instant (time_Date 2024 12 31 0 0 0 1) > instant (time_Date 2024 12 31 0 0 0 0)"
    by (simp add: instant_def time_Date_def)
  note t0 = parseExpirationTime_order_and_strict_after
      [of "''2024-12-31''" 2024 12 31 "examplePod [] [annotationExpires \<mapsto> ''2024-12-31'']"
        "- (2 ^ 63)" "time_Date 2024 12 31 0 0 0 0" exampleJanitor]
  note t1 = parseExpirationTime_order_and_strict_after
      [of "''2024-12-31''" 2024 12 31 "examplePod [] [annotationExpires \<mapsto> ''2024-12-31'']"
        "- (2 ^ 63)" "time_Date 2024 12 31 0 0 0 1" exampleJanitor]
  have c0: "shouldDelete (- (2 ^ 63)) (time_Date 2024 12 31 0 0 0 0) exampleJanitor
     (examplePod [] [annotationExpires \<mapsto> ''2024-12-31'']) = (False, [])"
    using t0 a b parse_date_only by blast
  have c1: "fst (shouldDelete (- (2 ^ 63)) (time_Date 2024 12 31 0 0 0 1) exampleJanitor
     (examplePod [] [annotationExpires \<mapsto> ''2024-12-31'']))"
    using t1 a b parse_date_only lt by blast
  from a b parse_date_only c0 c1 show ?thesis by blast
qed

section \<open>A missing creation timestamp (claim C10)\<close>

text \<open>
  Claim C10, as the code has it. For an object with a \<open>janitor/ttl\<close> annotation that
  parses to \<open>d\<close> and without the field \<open>metadata.creationTimestamp\<close>, the age is
  taken from the zero time; at any reading of the clock that is at least
  \<open>maxDuration\<close> after the zero time (any date after the year 293) the age is
  \<open>maxDuration\<close>, the largest \<open>Duration\<close> (about 292 years), and the object is
  deleted exactly when \<open>d\<close> is below \<open>maxDuration\<close>.
\<close>

theorem missing_creationTimestamp_age_saturates:
  assumes "annotations obj annotationTTL = Some ttl"
    and "creationTimestamp obj = []"
    and "ParseExtendedDuration ovf ttl = Inr d"
    and "instant now \<ge> maxDuration"
  shows "time_Since now (GetCreationTimestamp obj) = maxDuration \<and>
         (fst (shouldDelete ovf now j obj) \<longleftrightarrow> d < maxDuration)"
proof -
  have z: "instant zeroTime = 0"
    by (simp add: timeEval)
  have "GetCreationTimestamp obj = zeroTime"
    using assms(2) by (simp add: GetCreationTimestamp_def)
  with z assms(4) have age: "time_Since now (GetCreationTimestamp obj) = maxDuration"
    by (simp add: time_Since_def time_Sub_def maxDuration_def minDuration_def)
  with assms(1,3) show ?thesis by (simp add: shouldDelete_def)
qed

text \<open>
  The witness: at noon of 1 January 2025 a pod without creation timestamp and with a
  TTL of \<open>1h\<close> has the age \<open>maxDuration\<close> and is deleted.
\<close>

theorem missing_creationTimestamp_age_saturates_witness:
  "annotations (examplePod [] [annotationTTL \<mapsto> ''1h'']) annotationTTL = Some ''1h'' \<and>
   creationTimestamp (examplePod [] [annotationTTL \<mapsto> ''1h'']) = [] \<and>
   ParseExtendedDuration (- (2 ^ 63)) ''1h'' = Inr 3600000000000 \<and>
   instant exampleNow \<ge> maxDuration \<and>
   time_Since exampleNow (GetCreationTimestamp (examplePod [] [annotationTTL \<mapsto> ''1h'']))
     = maxDuration \<and>
   fst (shouldDelete (- (2 ^ 63)) exampleNow exampleJanitor (examplePod [] [annotationTTL \<mapsto> ''1h'']))"
proof -
  have a: "annotations (examplePod [] [annotationTTL \<mapsto> ''1h'']) annotationTTL = Some ''1h''"
    and c: "creationTimestamp (examplePod [] [annotationTTL \<mapsto> ''1h'']) = []"
    by (simp_all add: examplePod_def)
  have n: "instant exampleNow \<ge> maxDuration"
    by (simp add: instant_exampleNow maxDuration_def)
  have p: "ParseExtendedDuration (- (2 ^ 63)) ''1h'' = Inr 3600000000000"
    by (rule ParseExtendedDuration_1h)
  from missing_creationTimestamp_age_saturates [OF a c p n, of exampleJanitor] a c p n
  show ?thesis by (simp add: maxDuration_def)
qed

text \<open>
  The claim as stated says that such an object is deleted for every TTL that is not
  negative. The TTL \<open>9223372036854775807ns\<close> parses to \<open>maxDuration\<close>, which the
  age does not exceed: the object is kept.
\<close>

theorem missing_creationTimestamp_keep_counterexample:
  "creationTimestamp (examplePod [] [annotationTTL \<mapsto> ''9223372036854775807ns'']) = [] \<and>
   annotations (examplePod [] [annotationTTL \<mapsto> ''9223372036854775807ns'']) annotationTTL
     = Some ''9223372036854775807ns'' \<and>
   ParseExtendedDuration (- (2 ^ 63)) ''9223372036854775807ns'' = Inr 9223372036854775807 \<and>
   (0 :: Duration) \<le> 9223372036854775807 \<and>
   shouldDelete (- (2 ^ 63)) exampleNow exampleJanitor
     (examplePod [] [annotationTTL \<mapsto> ''9223372036854775807ns'']) = (False, [])"
proof -
  have "shouldDelete (- (2 ^ 63)) exampleNow exampleJanitor
     (examplePod [] [annotationTTL \<mapsto> ''9223372036854775807ns'']) = (False, [])"
    by (simp add: shouldDelete_def examplePod_fields ParseExtendedDuration_max age_no_timestamp)
  then show ?thesis
    by (simp add: ParseExtendedDuration_max examplePod_fields)
qed

end
